theory Spec2Isabelle
  imports Complex_Main "HOL-Library.Sublist"
begin


section \<open>Python values\<close>

text \<open>
  A Python \<open>str\<close> is a sequence of Unicode code points, so it is modelled as a list of
  naturals: \<open>len\<close>, \<open>strip\<close>, \<open>lower\<close>, \<open>in\<close> and the regular expressions of the source all
  work on code points. ASCII literals are written \<open>ascii ''usd''\<close>; Cyrillic literals are
  written as code points, with a transliteration beside them.

  A Python \<open>float\<close> is modelled as a real number: the arithmetic of the source is kept
  operation by operation, and the one place where float arithmetic raises
  (\<open>ZeroDivisionError\<close>) is written out, but rounding is not modelled.
\<close>

type_synonym pystr = "nat list"

definition ascii :: "string \<Rightarrow> pystr" where
  "ascii s = map of_char s"

text \<open>
  \<open>str.lower\<close> and \<open>str.upper\<close> on the Basic Latin block and on the Cyrillic block
  U+0400..U+045F, which hold every letter of the vocabulary; other code points are left as
  they are.
\<close>

definition lower_cp :: "nat \<Rightarrow> nat" where
  "lower_cp c =
     (if 65 \<le> c \<and> c \<le> 90 then c + 32
      else if 1024 \<le> c \<and> c \<le> 1039 then c + 80
      else if 1040 \<le> c \<and> c \<le> 1071 then c + 32
      else c)"

definition upper_cp :: "nat \<Rightarrow> nat" where
  "upper_cp c =
     (if 97 \<le> c \<and> c \<le> 122 then c - 32
      else if 1072 \<le> c \<and> c \<le> 1103 then c - 32
      else if 1104 \<le> c \<and> c \<le> 1119 then c - 80
      else c)"

definition lower :: "pystr \<Rightarrow> pystr" where
  "lower s = map lower_cp s"

definition upper :: "pystr \<Rightarrow> pystr" where
  "upper s = map upper_cp s"

text \<open>\<open>str.isspace\<close> of one code point; the class \<open>\s\<close> of \<open>re\<close> is the same set.\<close>

definition isspace :: "nat \<Rightarrow> bool" where
  "isspace c \<longleftrightarrow>
     (9 \<le> c \<and> c \<le> 13) \<or> (28 \<le> c \<and> c \<le> 32) \<or> c = 133 \<or> c = 160 \<or> c = 5760 \<or>
     (8192 \<le> c \<and> c \<le> 8202) \<or> c = 8232 \<or> c = 8233 \<or> c = 8239 \<or> c = 8287 \<or> c = 12288"

definition strip :: "pystr \<Rightarrow> pystr" where
  "strip s = rev (dropWhile isspace (rev (dropWhile isspace s)))"

fun startswith :: "pystr \<Rightarrow> pystr \<Rightarrow> bool" where
  "startswith s [] = True"
| "startswith [] (k # ks) = False"
| "startswith (c # cs) (k # ks) = (c = k \<and> startswith cs ks)"

text \<open>\<open>key in name\<close> on strings: \<open>contains name key\<close>.\<close>

fun contains :: "pystr \<Rightarrow> pystr \<Rightarrow> bool" where
  "contains [] key = (key = [])"
| "contains (c # cs) key = (startswith (c # cs) key \<or> contains cs key)"

text \<open>\<open>sep.join(parts)\<close>.\<close>

fun join :: "pystr \<Rightarrow> pystr list \<Rightarrow> pystr" where
  "join sep [] = []"
| "join sep [p] = p"
| "join sep (p # q # ps) = p @ sep @ join sep (q # ps)"

text \<open>
  The decimal digits of Unicode (category Nd, Unicode 14.0): the class \<open>\d\<close> of \<open>re\<close> on
  strings, \<open>str.isdecimal\<close>, and the digits that \<open>float\<close> reads. They lie in runs of ten
  code points, from a zero to a nine; \<open>decimal_zeros\<close> lists the zeros.
\<close>

definition decimal_zeros :: "nat list" where
  "decimal_zeros =
     [48, 1632, 1776, 1984, 2406, 2534, 2662, 2790, 2918, 3046,
      3174, 3302, 3430, 3558, 3664, 3792, 3872, 4160, 4240, 6112,
      6160, 6470, 6608, 6784, 6800, 6992, 7088, 7232, 7248, 42528,
      43216, 43264, 43472, 43504, 43600, 44016, 65296, 66720, 68912, 69734,
      69872, 69942, 70096, 70384, 70736, 70864, 71248, 71360, 71472, 71904,
      72016, 72784, 73040, 73120, 92768, 92864, 93008, 120782, 120792, 120802,
      120812, 120822, 123200, 123632, 125264, 130032]"

fun decimal_value_in :: "nat list \<Rightarrow> nat \<Rightarrow> nat option" where
  "decimal_value_in [] c = None"
| "decimal_value_in (z # zs) c =
     (if z \<le> c \<and> c \<le> z + 9 then Some (c - z) else decimal_value_in zs c)"

definition decimal_value :: "nat \<Rightarrow> nat option" where
  "decimal_value c = decimal_value_in decimal_zeros c"

definition isdecimal :: "nat \<Rightarrow> bool" where
  "isdecimal c \<longleftrightarrow> decimal_value c \<noteq> None"

text \<open>
  \<open>float(s)\<close> for a string of decimal digits and dots, which is all the source passes to it
  (the first group of the term pattern): \<open>None\<close> is \<open>ValueError\<close>.
\<close>

definition digits_value :: "pystr \<Rightarrow> real" where
  "digits_value ds =
     foldl (\<lambda>a d. 10 * a + real (case decimal_value d of None \<Rightarrow> 0 | Some v \<Rightarrow> v)) 0 ds"

definition py_float :: "pystr \<Rightarrow> real option" where
  "py_float s =
     (let ip = takeWhile isdecimal s; r = dropWhile isdecimal s in
      case r of
        [] \<Rightarrow> if ip = [] then None else Some (digits_value ip)
      | c # fr \<Rightarrow>
          if c = 46 \<and> list_all isdecimal fr \<and> \<not> (ip = [] \<and> fr = [])
          then Some (digits_value ip + digits_value fr / 10 ^ length fr)
          else None)"

section \<open>config.py\<close>

definition Dollar :: pystr where \<comment> \<open>the name of USD, "Dollar"\<close>
  "Dollar = [1044, 1086, 1083, 1083, 1072, 1088]"

definition Evro :: pystr where \<comment> \<open>the name of EUR, "Evro"\<close>
  "Evro = [1045, 1074, 1088, 1086]"

definition Rubl :: pystr where \<comment> \<open>the name of RUB, "Rubl'"\<close>
  "Rubl = [1056, 1091, 1073, 1083, 1100]"

definition Yuan :: pystr where \<comment> \<open>the name of CNY, "Yuan'"\<close>
  "Yuan = [1070, 1072, 1085, 1100]"

definition Belorusskij_rubl :: pystr where \<comment> \<open>the name of BYN, "Belorusskij rubl'"\<close>
  "Belorusskij_rubl =
     [1041, 1077, 1083, 1086, 1088, 1091, 1089, 1089, 1082, 1080, 1081, 32,
      1088, 1091, 1073, 1083, 1100]"

definition Indijskaya_rupiya :: pystr where \<comment> \<open>the name of INR, "Indijskaya rupiya"\<close>
  "Indijskaya_rupiya =
     [1048, 1085, 1076, 1080, 1081, 1089, 1082, 1072, 1103, 32, 1088, 1091, 1087, 1080, 1103]"

definition Bitkoin :: pystr where \<comment> \<open>the name of BTC, "Bitkoin"\<close>
  "Bitkoin = [1041, 1080, 1090, 1082, 1086, 1080, 1085]"

definition Efirium :: pystr where \<comment> \<open>the name of ETH, "Efirium"\<close>
  "Efirium = [1069, 1092, 1080, 1088, 1080, 1091, 1084]"

definition Lajtkoin :: pystr where \<comment> \<open>the name of LTC, "Lajtkoin"\<close>
  "Lajtkoin = [1051, 1072, 1081, 1090, 1082, 1086, 1080, 1085]"

definition Tezer :: pystr where \<comment> \<open>the name of USDT, "Tezer"\<close>
  "Tezer = [1058, 1077, 1079, 1077, 1088]"

definition Binans :: pystr where \<comment> \<open>the name of BNB, "Binans"\<close>
  "Binans = [1041, 1080, 1085, 1072, 1085, 1089]"

definition Ripl :: pystr where \<comment> \<open>the name of XRP, "Ripl"\<close>
  "Ripl = [1056, 1080, 1087, 1083]"

definition Dogikoin :: pystr where \<comment> \<open>the name of DOGE, "Dogikoin"\<close>
  "Dogikoin = [1044, 1086, 1075, 1080, 1082, 1086, 1080, 1085]"

text \<open>\<open>Config.CURRENCIES\<close>, in the order of the dict literal.\<close>

definition CURRENCIES :: "(pystr \<times> pystr) list" where
  "CURRENCIES =
    [(Dollar, ascii ''USD''),
     (Evro, ascii ''EUR''),
     (Rubl, ascii ''RUB''),
     (Yuan, ascii ''CNY''),
     (Belorusskij_rubl, ascii ''BYN''),
     (Indijskaya_rupiya, ascii ''INR''),
     (Bitkoin, ascii ''BTC''),
     (Efirium, ascii ''ETH''),
     (Lajtkoin, ascii ''LTC''),
     (Tezer, ascii ''USDT''),
     (Binans, ascii ''BNB''),
     (Ripl, ascii ''XRP''),
     (Dogikoin, ascii ''DOGE'')]"

section \<open>extensions.py: normalize\_currency\_name\<close>

text \<open>
  The dict literal \<open>currency_map\<close> of \<open>normalize_currency_name\<close>. A Python dict iterates in
  insertion order, so the table is a list in the order of the literal; its keys are distinct.
\<close>

definition currency_map :: "(pystr \<times> pystr) list" where
  "currency_map =
    [([1076, 1086, 1083, 1083, 1072, 1088], Dollar), \<comment> \<open>dollar\<close>
     ([1077, 1074, 1088, 1086], Evro), \<comment> \<open>evro\<close>
     ([1088, 1091, 1073, 1083, 1100], Rubl), \<comment> \<open>rubl'\<close>
     ([1102, 1072, 1085, 1100], Yuan), \<comment> \<open>yuan'\<close>
     ([1073, 1077, 1083, 1086, 1088, 1091, 1089, 1089, 1082, 1080, 1081, 32,
       1088, 1091, 1073, 1083, 1100], Belorusskij_rubl), \<comment> \<open>belorusskij rubl'\<close>
     ([1080, 1085, 1076, 1080, 1081, 1089, 1082, 1072, 1103, 32,
       1088, 1091, 1087, 1080, 1103], Indijskaya_rupiya), \<comment> \<open>indijskaya rupiya\<close>
     ([1073, 1080, 1090, 1082, 1086, 1080, 1085], Bitkoin), \<comment> \<open>bitkoin\<close>
     ([1101, 1092, 1080, 1088, 1080, 1091, 1084], Efirium), \<comment> \<open>efirium\<close>
     ([1083, 1072, 1081, 1090, 1082, 1086, 1080, 1085], Lajtkoin), \<comment> \<open>lajtkoin\<close>
     ([1090, 1077, 1079, 1077, 1088], Tezer), \<comment> \<open>tezer\<close>
     ([1088, 1080, 1087, 1083], Ripl), \<comment> \<open>ripl\<close>
     ([1076, 1086, 1075, 1080, 1082, 1086, 1080, 1085], Dogikoin), \<comment> \<open>dogikoin\<close>
     ([1073, 1080, 1085, 1072, 1085, 1089], Binans), \<comment> \<open>binans\<close>
     (ascii ''usd'', Dollar),
     (ascii ''eur'', Evro),
     (ascii ''rub'', Rubl),
     (ascii ''cny'', Yuan),
     (ascii ''byn'', Belorusskij_rubl),
     (ascii ''inr'', Indijskaya_rupiya),
     (ascii ''btc'', Bitkoin),
     (ascii ''eth'', Efirium),
     (ascii ''ltc'', Lajtkoin),
     (ascii ''usdt'', Tezer),
     (ascii ''xrp'', Ripl),
     (ascii ''doge'', Dogikoin),
     (ascii ''bnb'', Binans),
     ([1073, 1072, 1082, 1089], Dollar), \<comment> \<open>baks\<close>
     ([1073, 1072, 1082, 1080], Dollar), \<comment> \<open>baki\<close>
     ([1073, 1080, 1090, 1086, 1082], Bitkoin), \<comment> \<open>bitok\<close>
     ([1101, 1092, 1080, 1088], Efirium), \<comment> \<open>efir\<close>
     ([1083, 1072, 1081, 1090], Lajtkoin), \<comment> \<open>lajt\<close>
     ([1076, 1086, 1075, 1080], Dogikoin)] \<comment> \<open>dogi\<close>"

text \<open>The loop \<open>for key, value in currency_map.items(): if key in name: return value\<close>.\<close>

fun partial_match :: "(pystr \<times> pystr) list \<Rightarrow> pystr \<Rightarrow> pystr option" where
  "partial_match [] name = None"
| "partial_match ((key, value) # rest) name =
     (if contains name key then Some value else partial_match rest name)"

text \<open>The loop \<open>for currency_name in Config.CURRENCIES.keys(): if currency_name.lower() == name\<close>.\<close>

fun vocabulary_match :: "pystr list \<Rightarrow> pystr \<Rightarrow> pystr option" where
  "vocabulary_match [] name = None"
| "vocabulary_match (currency_name # rest) name =
     (if lower currency_name = name then Some currency_name else vocabulary_match rest name)"

text \<open>
  The argument is \<open>None\<close> for Python's \<open>None\<close>; \<open>not name\<close> holds for \<open>None\<close> and for the empty
  string.
\<close>

definition normalize_currency_name :: "pystr option \<Rightarrow> pystr option" where
  "normalize_currency_name name0 =
     (case name0 of
        None \<Rightarrow> None
      | Some raw \<Rightarrow>
          if raw = [] then None
          else
            let name = lower (strip raw) in
            case map_of currency_map name of
              Some value \<Rightarrow> Some value
            | None \<Rightarrow>
                (case partial_match currency_map name of
                   Some value \<Rightarrow> Some value
                 | None \<Rightarrow> vocabulary_match (map fst CURRENCIES) name))"

section \<open>extensions.py: errors, providers and the cache\<close>

text \<open>
  The source raises one exception class, \<open>APIException\<close>, with a message. Each message is a
  constructor of \<open>error\<close>, named after the error kind it stands for; \<open>Uncaught e\<close> is a Python
  exception \<open>e\<close> that is not an \<open>APIException\<close> and leaves the function as it is.
\<close>

datatype py_exception =
  KeyError | ValueError | ZeroDivisionError | RequestException | JSONDecodeError

datatype upstream_failure =
    CoinGeckoStatus \<comment> \<open>"Oshibka pri poluchenii dannyh ot CoinGecko"\<close>
  | CryptoRateMissing \<comment> \<open>"Ne udalos' poluchit' kurs dlya kriptovalyut"\<close>
  | CryptoEntryMissing \<comment> \<open>"Oshibka polucheniya kursa kriptovalyut"\<close>
  | OpenExchangeStatus \<comment> \<open>"Oshibka pri poluchenii dannyh ot OpenExchangeRates"\<close>
  | OpenExchangeFields \<comment> \<open>"Oshibka v otvete Open Exchange Rates"\<close>
  | TickerNotFound \<comment> \<open>"Odna iz valyut ... ili ... ne najdena"\<close>

datatype error =
    UnknownCurrency pystr \<comment> \<open>"Neizvestnaya valyuta: ..."\<close>
  | UnknownTargetCurrency pystr \<comment> \<open>"Neizvestnaya celevaya valyuta: ..."\<close>
  | UnsupportedCrypto \<comment> \<open>"Nepodderzhivaemaya kriptovalyuta"\<close>
  | UpstreamUnavailable upstream_failure
  | BridgeFailed py_exception \<comment> \<open>"Oshibka konvertacii cherez USD: ..."\<close>
  | ConversionFailed py_exception \<comment> \<open>"Oshibka konvertacii: ..."\<close>
  | ExpressionTooShort \<comment> \<open>"Nevozmozhno razobrat' vyrazhenie"\<close>
  | UnparsableTerm pystr \<comment> \<open>"Ne mogu razobrat' chast': ..."\<close>
  | DivisionByZero \<comment> \<open>"Delenie na nol'"\<close>
  | Uncaught py_exception

text \<open>
  The two providers. A call of \<open>requests.get\<close> either raises (\<open>NoResponse\<close>) or gives a
  response with a status code and a body; \<open>response.json()\<close> raises when the body is \<open>None\<close>.
  The bodies have the shape the providers document: the price endpoint answers with a
  mapping from asset identifier to a mapping from currency code to a number, the snapshot
  endpoint with an object whose fields \<open>rates\<close> (ticker to number) and \<open>timestamp\<close> may be
  missing.
\<close>

datatype request = SimplePrice "pystr list" pystr | LatestRates

datatype 'b response = NoResponse | Response int "'b option"

type_synonym prices = "pystr \<rightharpoonup> (pystr \<rightharpoonup> real)"

record snapshot =
  rates :: "(pystr \<rightharpoonup> real) option"
  timestamp :: "real option"

text \<open>
  The world outside the process: what the \<open>k\<close>-th reading of \<open>time.time()\<close> returns and what
  the providers answer to the \<open>k\<close>-th request. The process state is the class attribute
  \<open>RATE_CACHE\<close>, the requests issued so far and the number of clock readings so far.
\<close>

record world =
  clock :: "nat \<Rightarrow> real"
  coingecko :: "nat \<Rightarrow> pystr list \<Rightarrow> pystr \<Rightarrow> prices response"
  openexchangerates :: "nat \<Rightarrow> snapshot response"

record state =
  RATE_CACHE :: "pystr \<rightharpoonup> real \<times> real"
  upstream_log :: "request list"
  clock_reads :: nat

definition time_time :: "world \<Rightarrow> state \<Rightarrow> real \<times> state" where
  "time_time w s = (clock w (clock_reads s), s\<lparr>clock_reads := Suc (clock_reads s)\<rparr>)"

definition get_simple_price ::
  "world \<Rightarrow> state \<Rightarrow> pystr list \<Rightarrow> pystr \<Rightarrow> prices response \<times> state" where
  "get_simple_price w s ids vs_currencies =
     (coingecko w (length (upstream_log s)) ids vs_currencies,
      s\<lparr>upstream_log := upstream_log s @ [SimplePrice ids vs_currencies]\<rparr>)"

definition get_latest :: "world \<Rightarrow> state \<Rightarrow> snapshot response \<times> state" where
  "get_latest w s =
     (openexchangerates w (length (upstream_log s)),
      s\<lparr>upstream_log := upstream_log s @ [LatestRates]\<rparr>)"

definition COINGECKO_IDS :: "(pystr \<times> pystr) list" where
  "COINGECKO_IDS =
    [(ascii ''btc'', ascii ''bitcoin''),
     (ascii ''eth'', ascii ''ethereum''),
     (ascii ''ltc'', ascii ''litecoin''),
     (ascii ''usdt'', ascii ''tether''),
     (ascii ''bnb'', ascii ''binancecoin''),
     (ascii ''xrp'', ascii ''ripple''),
     (ascii ''doge'', ascii ''dogecoin''),
     (ascii ''ada'', ascii ''cardano''),
     (ascii ''dot'', ascii ''polkadot''),
     (ascii ''sol'', ascii ''solana'')]"

definition CACHE_DURATION :: real where
  "CACHE_DURATION = 3600"

definition cache_key :: "pystr \<Rightarrow> pystr \<Rightarrow> pystr" where
  "cache_key base quote = base @ ascii ''_'' @ quote"

text \<open>
  \<open>get_cached_rate\<close>: the clock is read only when the key has an entry (\<open>and\<close> is
  short-circuit). The pair \<open>(None, None)\<close> of the source is \<open>None\<close>.
\<close>

definition get_cached_rate ::
  "world \<Rightarrow> state \<Rightarrow> pystr \<Rightarrow> pystr \<Rightarrow> (real \<times> real) option \<times> state" where
  "get_cached_rate w s base quote =
     (case RATE_CACHE s (cache_key base quote) of
        None \<Rightarrow> (None, s)
      | Some cached \<Rightarrow>
          (case time_time w s of
             (now, s1) \<Rightarrow>
               if now - snd cached < CACHE_DURATION then (Some (fst cached, snd cached), s1)
               else (None, s1)))"

definition cache_rate :: "world \<Rightarrow> state \<Rightarrow> pystr \<Rightarrow> pystr \<Rightarrow> real \<Rightarrow> state" where
  "cache_rate w s base quote rate =
     (case time_time w s of
        (now, s1) \<Rightarrow> s1\<lparr>RATE_CACHE := (RATE_CACHE s1)(cache_key base quote \<mapsto> (rate, now))\<rparr>)"

type_synonym conversion = "(error + real \<times> real) \<times> state"

section \<open>extensions.py: the four conversion paths\<close>

definition convert_crypto_to_crypto ::
  "world \<Rightarrow> state \<Rightarrow> pystr \<Rightarrow> pystr \<Rightarrow> real \<Rightarrow> real \<Rightarrow> conversion" where
  "convert_crypto_to_crypto w s base_code quote_code amount commission =
     (case (map_of COINGECKO_IDS base_code, map_of COINGECKO_IDS quote_code) of
        (Some base_id, Some quote_id) \<Rightarrow>
          (case get_simple_price w s [base_id, quote_id] (ascii ''usd'') of
             (NoResponse, s1) \<Rightarrow> (Inl (Uncaught RequestException), s1)
           | (Response status_code body, s1) \<Rightarrow>
               if status_code \<noteq> 200 then (Inl (UpstreamUnavailable CoinGeckoStatus), s1)
               else
                 (case body of
                    None \<Rightarrow> (Inl (Uncaught JSONDecodeError), s1)
                  | Some data \<Rightarrow>
                      (case time_time w s1 of
                         (ts, s2) \<Rightarrow>
                           (case (data base_id, data quote_id) of
                              (Some base_entry, Some quote_entry) \<Rightarrow>
                                (case (base_entry (ascii ''usd''), quote_entry (ascii ''usd'')) of
                                   (Some base_usd, Some quote_usd) \<Rightarrow>
                                     if base_usd = 0 \<or> quote_usd = 0
                                     then (Inl (UpstreamUnavailable CryptoRateMissing), s2)
                                     else
                                       (Inr ((amount * base_usd) / quote_usd * (1 + commission / 100),
                                             ts), s2)
                                 | _ \<Rightarrow> (Inl (UpstreamUnavailable CryptoRateMissing), s2))
                            | _ \<Rightarrow> (Inl (UpstreamUnavailable CryptoEntryMissing), s2)))))
      | _ \<Rightarrow> (Inl UnsupportedCrypto, s))"

text \<open>
  The two halves of the \<open>try\<close> block of \<open>convert_via_usd\<close>: each gives its rate and its
  timestamp, or the Python exception that the \<open>except\<close> clause will wrap. No status code is
  checked on this path. A fiat ticker that the snapshot does not list gets the rate 1
  (\<open>.get(code.upper(), 1)\<close>).
\<close>

definition base_to_usd_leg ::
  "world \<Rightarrow> state \<Rightarrow> pystr \<Rightarrow> (py_exception + real \<times> real) \<times> state" where
  "base_to_usd_leg w s base_code =
     (case map_of COINGECKO_IDS base_code of
        Some base_id \<Rightarrow>
          (case get_simple_price w s [base_id] (ascii ''usd'') of
             (NoResponse, s1) \<Rightarrow> (Inl RequestException, s1)
           | (Response status_code None, s1) \<Rightarrow> (Inl JSONDecodeError, s1)
           | (Response status_code (Some data), s1) \<Rightarrow>
               (case data base_id of
                  None \<Rightarrow> (Inl KeyError, s1)
                | Some entry \<Rightarrow>
                    (case entry (ascii ''usd'') of
                       None \<Rightarrow> (Inl KeyError, s1)
                     | Some base_to_usd \<Rightarrow>
                         (case time_time w s1 of (ts1, s2) \<Rightarrow> (Inr (base_to_usd, ts1), s2)))))
      | None \<Rightarrow>
          (case get_latest w s of
             (NoResponse, s1) \<Rightarrow> (Inl RequestException, s1)
           | (Response status_code None, s1) \<Rightarrow> (Inl JSONDecodeError, s1)
           | (Response status_code (Some data), s1) \<Rightarrow>
               (case rates data of
                  None \<Rightarrow> (Inl KeyError, s1)
                | Some rs \<Rightarrow>
                    (case timestamp data of
                       None \<Rightarrow> (Inl KeyError, s1)
                     | Some ts1 \<Rightarrow>
                         (Inr (case rs (upper base_code) of None \<Rightarrow> 1 | Some r \<Rightarrow> r, ts1), s1)))))"

definition usd_to_quote_leg ::
  "world \<Rightarrow> state \<Rightarrow> pystr \<Rightarrow> (py_exception + real \<times> real) \<times> state" where
  "usd_to_quote_leg w s quote_code =
     (case map_of COINGECKO_IDS quote_code of
        Some quote_id \<Rightarrow>
          (case get_simple_price w s [quote_id] (ascii ''usd'') of
             (NoResponse, s1) \<Rightarrow> (Inl RequestException, s1)
           | (Response status_code None, s1) \<Rightarrow> (Inl JSONDecodeError, s1)
           | (Response status_code (Some data), s1) \<Rightarrow>
               (case data quote_id of
                  None \<Rightarrow> (Inl KeyError, s1)
                | Some entry \<Rightarrow>
                    (case entry (ascii ''usd'') of
                       None \<Rightarrow> (Inl KeyError, s1)
                     | Some quote_usd \<Rightarrow>
                         if quote_usd = 0 then (Inl ZeroDivisionError, s1)
                         else
                           (case time_time w s1 of
                              (ts2, s2) \<Rightarrow> (Inr (1 / quote_usd, ts2), s2)))))
      | None \<Rightarrow>
          (case get_latest w s of
             (NoResponse, s1) \<Rightarrow> (Inl RequestException, s1)
           | (Response status_code None, s1) \<Rightarrow> (Inl JSONDecodeError, s1)
           | (Response status_code (Some data), s1) \<Rightarrow>
               (case rates data of
                  None \<Rightarrow> (Inl KeyError, s1)
                | Some rs \<Rightarrow>
                    (case timestamp data of
                       None \<Rightarrow> (Inl KeyError, s1)
                     | Some ts2 \<Rightarrow>
                         (Inr (case rs (upper quote_code) of None \<Rightarrow> 1 | Some r \<Rightarrow> r, ts2), s1)))))"

definition convert_via_usd ::
  "world \<Rightarrow> state \<Rightarrow> pystr \<Rightarrow> pystr \<Rightarrow> real \<Rightarrow> real \<Rightarrow> conversion" where
  "convert_via_usd w s base_code quote_code amount commission =
     (case base_to_usd_leg w s base_code of
        (Inl e, s1) \<Rightarrow> (Inl (BridgeFailed e), s1)
      | (Inr (base_to_usd, ts1), s1) \<Rightarrow>
          (case usd_to_quote_leg w s1 quote_code of
             (Inl e, s2) \<Rightarrow> (Inl (BridgeFailed e), s2)
           | (Inr (usd_to_quote, ts2), s2) \<Rightarrow>
               (Inr ((amount * base_to_usd * usd_to_quote) * (1 + commission / 100),
                     max ts1 ts2), s2)))"

datatype convert_direction = crypto_to_fiat | fiat_to_crypto

definition convert_crypto_to_fiat ::
  "world \<Rightarrow> state \<Rightarrow> pystr \<Rightarrow> pystr \<Rightarrow> real \<Rightarrow> real \<Rightarrow> conversion" where
  "convert_crypto_to_fiat w s base_code quote_code amount commission =
     (case (if base_code \<in> set (map fst COINGECKO_IDS)
            then (base_code, quote_code, crypto_to_fiat)
            else (quote_code, base_code, fiat_to_crypto)) of
        (crypto_code, fiat_code, direction) \<Rightarrow>
          (case map_of COINGECKO_IDS crypto_code of
             None \<Rightarrow> (Inl UnsupportedCrypto, s)
           | Some crypto_id \<Rightarrow>
               (case get_simple_price w s [crypto_id] fiat_code of
                  (NoResponse, s1) \<Rightarrow> (Inl (Uncaught RequestException), s1)
                | (Response status_code body, s1) \<Rightarrow>
                    if status_code \<noteq> 200 then (Inl (UpstreamUnavailable CoinGeckoStatus), s1)
                    else
                      (case body of
                         None \<Rightarrow> (Inl (Uncaught JSONDecodeError), s1)
                       | Some data \<Rightarrow>
                           (case time_time w s1 of
                              (ts, s2) \<Rightarrow>
                                (case (case data crypto_id of
                                         None \<Rightarrow> None
                                       | Some entry \<Rightarrow> entry fiat_code) of
                                   Some rate \<Rightarrow>
                                     if direction = crypto_to_fiat
                                     then (Inr (amount * rate * (1 + commission / 100), ts), s2)
                                     else if rate = 0 then (Inl (Uncaught ZeroDivisionError), s2)
                                     else (Inr (amount / rate * (1 + commission / 100), ts), s2)
                                 | None \<Rightarrow>
                                     convert_via_usd w s2 base_code quote_code amount
                                       commission))))))"

definition convert_fiat_to_fiat ::
  "world \<Rightarrow> state \<Rightarrow> pystr \<Rightarrow> pystr \<Rightarrow> real \<Rightarrow> real \<Rightarrow> conversion" where
  "convert_fiat_to_fiat w s base_code quote_code amount commission =
     (case get_latest w s of
        (NoResponse, s1) \<Rightarrow> (Inl (Uncaught RequestException), s1)
      | (Response status_code body, s1) \<Rightarrow>
          if status_code \<noteq> 200 then (Inl (UpstreamUnavailable OpenExchangeStatus), s1)
          else
            (case body of
               None \<Rightarrow> (Inl (Uncaught JSONDecodeError), s1)
             | Some data \<Rightarrow>
                 (case (rates data, timestamp data) of
                    (Some rs, Some ts) \<Rightarrow>
                      (case (rs (upper base_code), rs (upper quote_code)) of
                         (Some base_rate, Some quote_rate) \<Rightarrow>
                           if base_rate = 0 \<or> quote_rate = 0
                           then (Inl (UpstreamUnavailable TickerNotFound), s1)
                           else
                             (Inr ((amount / base_rate) * quote_rate * (1 + commission / 100),
                                   ts), s1)
                       | _ \<Rightarrow> (Inl (UpstreamUnavailable TickerNotFound), s1))
                  | _ \<Rightarrow> (Inl (UpstreamUnavailable OpenExchangeFields), s1))))"

section \<open>extensions.py: get\_price\<close>

definition crypto_list :: "pystr list" where
  "crypto_list =
     [ascii ''btc'', ascii ''eth'', ascii ''ltc'', ascii ''usdt'', ascii ''bnb'', ascii ''xrp'',
      ascii ''doge'']"

text \<open>
  The handlers of the \<open>try\<close> block: an \<open>APIException\<close> is raised again as it is, any other
  exception becomes the \<open>APIException\<close> "Oshibka konvertacii: ...".
\<close>

fun reraise :: "error \<Rightarrow> error" where
  "reraise (Uncaught e) = ConversionFailed e"
| "reraise e = e"

text \<open>
  \<open>get_price\<close>. The lookups \<open>Config.CURRENCIES[base_key]\<close> stand before the \<open>try\<close>, so a
  missing key would leave as a \<open>KeyError\<close>. In the \<open>try\<close> block the division
  \<open>result / (amount * (1 + commission/100))\<close> raises \<open>ZeroDivisionError\<close> when the divisor is
  zero, before \<open>cache_rate\<close> is reached.
\<close>

definition get_price ::
  "world \<Rightarrow> state \<Rightarrow> pystr \<Rightarrow> pystr \<Rightarrow> real \<Rightarrow> real \<Rightarrow> conversion" where
  "get_price w s base quote amount commission =
     (case normalize_currency_name (Some base) of
        None \<Rightarrow> (Inl (UnknownCurrency base), s)
      | Some base_key \<Rightarrow>
     (case normalize_currency_name (Some quote) of
        None \<Rightarrow> (Inl (UnknownCurrency (if base_key = [] then base else quote)), s)
      | Some quote_key \<Rightarrow>
          if base_key = [] then (Inl (UnknownCurrency base), s)
          else if quote_key = [] then (Inl (UnknownCurrency quote), s)
          else
            (case (map_of CURRENCIES base_key, map_of CURRENCIES quote_key) of
               (Some base_ticker, Some quote_ticker) \<Rightarrow>
                 (let base_code = lower base_ticker; quote_code = lower quote_ticker in
                  case get_cached_rate w s base_code quote_code of
                    (Some (cached_rate, cached_ts), s1) \<Rightarrow>
                      (Inr (amount * cached_rate * (1 + commission / 100), cached_ts), s1)
                  | (None, s1) \<Rightarrow>
                      (case (if base_code \<in> set crypto_list \<or> quote_code \<in> set crypto_list
                             then
                               if base_code \<in> set crypto_list \<and> quote_code \<in> set crypto_list
                               then convert_crypto_to_crypto w s1 base_code quote_code amount
                                      commission
                               else convert_crypto_to_fiat w s1 base_code quote_code amount
                                      commission
                             else convert_fiat_to_fiat w s1 base_code quote_code amount
                                    commission) of
                         (Inl e, s2) \<Rightarrow> (Inl (reraise e), s2)
                       | (Inr (result, ts), s2) \<Rightarrow>
                           if amount * (1 + commission / 100) = 0
                           then (Inl (ConversionFailed ZeroDivisionError), s2)
                           else
                             (Inr (result, ts),
                              cache_rate w s2 base_code quote_code
                                (result / (amount * (1 + commission / 100))))))
             | _ \<Rightarrow> (Inl (Uncaught KeyError), s))))"

section \<open>extensions.py: process\_complex\_expression\<close>

text \<open>
  \<open>re.split(r'(\+|\-|\*|\/|v|to)', expression, flags=re.IGNORECASE)\<close>, where \<open>v\<close> stands for
  the Cyrillic letter U+0432: the text is cut at every operator character, at every
  Cyrillic ve and at every \<open>to\<close>, and the separators are kept. Under \<open>IGNORECASE\<close> the ve
  matches U+0432, U+0412 and U+1C80 (which has the same upper case), and \<open>to\<close> matches in
  either case. The first argument collects, in reverse, the characters since the last
  separator.
\<close>

definition is_operator_cp :: "nat \<Rightarrow> bool" where
  "is_operator_cp c \<longleftrightarrow> c = 43 \<or> c = 45 \<or> c = 42 \<or> c = 47"

definition is_ve :: "nat \<Rightarrow> bool" where
  "is_ve c \<longleftrightarrow> c = 1074 \<or> c = 1042 \<or> c = 7296"

definition is_to :: "nat \<Rightarrow> nat \<Rightarrow> bool" where
  "is_to c d \<longleftrightarrow> (c = 116 \<or> c = 84) \<and> (d = 111 \<or> d = 79)"

fun re_split :: "pystr \<Rightarrow> pystr \<Rightarrow> pystr list" where
  "re_split acc [] = [rev acc]"
| "re_split acc [c] =
     (if is_operator_cp c \<or> is_ve c then [rev acc, [c], []] else [rev (c # acc)])"
| "re_split acc (c # d # ds) =
     (if is_operator_cp c \<or> is_ve c then rev acc # [c] # re_split [] (d # ds)
      else if is_to c d then rev acc # [c, d] # re_split [] ds
      else re_split (c # acc) (d # ds))"

text \<open>
  \<open>re.match(r'^([\d\.]+)\s*([a-zA-Za-yaA-YA]+)?$', part)\<close> (the Cyrillic ranges are
  U+0430..U+044F and U+0410..U+042F): a non-empty run of digits and dots, white space, an
  optional run of letters, and then the end of the string or its final newline. The result
  holds the two groups.
\<close>

definition is_number_cp :: "nat \<Rightarrow> bool" where
  "is_number_cp c \<longleftrightarrow> isdecimal c \<or> c = 46"

definition is_letter_cp :: "nat \<Rightarrow> bool" where
  "is_letter_cp c \<longleftrightarrow>
     (97 \<le> c \<and> c \<le> 122) \<or> (65 \<le> c \<and> c \<le> 90) \<or> (1072 \<le> c \<and> c \<le> 1103) \<or>
     (1040 \<le> c \<and> c \<le> 1071)"

definition term_match :: "pystr \<Rightarrow> (pystr \<times> pystr option) option" where
  "term_match part =
     (let number = takeWhile is_number_cp part;
          after_space = dropWhile isspace (dropWhile is_number_cp part);
          letters = takeWhile is_letter_cp after_space;
          tail = dropWhile is_letter_cp after_space
      in if number \<noteq> [] \<and> (tail = [] \<or> tail = [10])
         then Some (number, if letters = [] then None else Some letters)
         else None)"

text \<open>The amount and the currency of one term (the first half of the loop body).\<close>

definition parse_term :: "pystr \<Rightarrow> error + real \<times> pystr" where
  "parse_term part =
     (case term_match part of
        None \<Rightarrow>
          (case normalize_currency_name (Some part) of
             None \<Rightarrow> Inl (UnparsableTerm part)
           | Some currency \<Rightarrow> if currency = [] then Inl (UnparsableTerm part) else Inr (1, currency))
      | Some (number, letters) \<Rightarrow>
          (case py_float number of
             None \<Rightarrow> Inl (Uncaught ValueError)
           | Some amount \<Rightarrow>
               Inr (amount, case letters of None \<Rightarrow> ascii ''USD'' | Some currency \<Rightarrow> currency)))"

text \<open>
  The \<open>for\<close> loop over the parts from position \<open>i\<close> on, with \<open>total_usd\<close> and
  \<open>current_operator\<close>; it gives the total and \<open>target_currency\<close>, which stays \<open>None\<close> when no
  marker is met or nothing follows it.
\<close>

fun fold_parts ::
  "world \<Rightarrow> state \<Rightarrow> real \<Rightarrow> pystr \<Rightarrow> pystr list \<Rightarrow> (error + real \<times> pystr option) \<times> state" where
  "fold_parts w s total_usd current_operator [] = (Inr (total_usd, None), s)"
| "fold_parts w s total_usd current_operator (part # rest) =
     (if lower part = [1074] \<or> lower part = ascii ''to''
      then (Inr (total_usd, if rest \<noteq> [] then Some (join (ascii '' '') rest) else None), s)
      else if part = ascii ''+'' \<or> part = ascii ''-'' \<or> part = ascii ''*'' \<or> part = ascii ''/''
      then fold_parts w s total_usd part rest
      else
        (case parse_term part of
           Inl e \<Rightarrow> (Inl e, s)
         | Inr (amount, currency) \<Rightarrow>
             (case normalize_currency_name (Some currency) of
                None \<Rightarrow> (Inl (UnknownCurrency currency), s)
              | Some curr_key \<Rightarrow>
                  if curr_key = [] then (Inl (UnknownCurrency currency), s)
                  else
                    (case get_price w s curr_key (ascii ''USD'') amount 0 of
                       (Inl e, s1) \<Rightarrow> (Inl e, s1)
                     | (Inr (converted, ts), s1) \<Rightarrow>
                         if current_operator = ascii ''+''
                         then fold_parts w s1 (total_usd + converted) current_operator rest
                         else if current_operator = ascii ''-''
                         then fold_parts w s1 (total_usd - converted) current_operator rest
                         else if current_operator = ascii ''*''
                         then fold_parts w s1 (total_usd * converted) current_operator rest
                         else if current_operator = ascii ''/''
                         then
                           if converted = 0 then (Inl DivisionByZero, s1)
                           else fold_parts w s1 (total_usd / converted) current_operator rest
                         else fold_parts w s1 total_usd current_operator rest))))"

definition process_complex_expression ::
  "world \<Rightarrow> state \<Rightarrow> pystr \<Rightarrow> (error + real \<times> pystr) \<times> state" where
  "process_complex_expression w s expression0 =
     (let expression = filter (\<lambda>c. c \<noteq> 40 \<and> c \<noteq> 41) expression0;
          parts = filter (\<lambda>p. p \<noteq> []) (map strip (re_split [] expression))
      in if length parts < 3 then (Inl ExpressionTooShort, s)
         else
           (case fold_parts w s 0 (ascii ''+'') parts of
              (Inl e, s1) \<Rightarrow> (Inl e, s1)
            | (Inr (total_usd, target), s1) \<Rightarrow>
                (let target_currency =
                       (case target of
                          None \<Rightarrow> ascii ''USD''
                        | Some t \<Rightarrow> if t = [] then ascii ''USD'' else t)
                 in case normalize_currency_name (Some target_currency) of
                      None \<Rightarrow> (Inl (UnknownTargetCurrency target_currency), s1)
                    | Some target_key \<Rightarrow>
                        if target_key = [] then (Inl (UnknownTargetCurrency target_currency), s1)
                        else (Inr (total_usd, target_key), s1))))"

section \<open>main.py: the reply to a complex expression\<close>

text \<open>
  \<open>text_converter\<close> takes a text as a complex expression when it holds an operator character
  and one of the markers between spaces:
  \<open>re.search(r'[\+\-\*\/]', text) and (' v ' in text or ' to ' in text)\<close>.
\<close>

definition is_complex_expression :: "pystr \<Rightarrow> bool" where
  "is_complex_expression text \<longleftrightarrow>
     list_ex is_operator_cp text \<and>
     (contains text (ascii '' '' @ [1074] @ ascii '' '') \<or> contains text (ascii '' to ''))"

text \<open>
  The two calls that \<open>text_converter\<close> makes for such a text: the expression is evaluated to
  a total in USD and a target, and the total is converted with
  \<open>get_price('USD', target_currency, total_usd)\<close>. The result holds \<open>total_usd\<close>,
  \<open>target_currency\<close>, \<open>result\<close> and the timestamp; an error is the exception that the
  handler catches.
\<close>

definition text_converter ::
  "world \<Rightarrow> state \<Rightarrow> pystr \<Rightarrow> (error + real \<times> pystr \<times> real \<times> real) \<times> state" where
  "text_converter w s text =
     (case process_complex_expression w s text of
        (Inl e, s1) \<Rightarrow> (Inl e, s1)
      | (Inr (total_usd, target_currency), s1) \<Rightarrow>
          (case get_price w s1 (ascii ''USD'') target_currency total_usd 0 of
             (Inl e, s2) \<Rightarrow> (Inl e, s2)
           | (Inr (result, ts), s2) \<Rightarrow> (Inr (total_usd, target_currency, result, ts), s2)))"

section \<open>Notions for the statements\<close>

text \<open>
  \<open>code_of name\<close> is the lowercase ticker code that \<open>get_price\<close> computes for a currency
  name (\<open>None\<close> when the name does not normalise). \<open>uncached\<close> is the conditional of the
  \<open>try\<close> block of \<open>get_price\<close>, the path chosen by the two codes, and \<open>resolve\<close> is
  \<open>get_price\<close> from the cache lookup on, for two codes. They are parts of \<open>get_price\<close> under
  names of their own; lemma \<open>get_price_resolve\<close> says so.
\<close>

definition code_of :: "pystr \<Rightarrow> pystr option" where
  "code_of name =
     (case normalize_currency_name (Some name) of
        None \<Rightarrow> None
      | Some key \<Rightarrow> map_option lower (map_of CURRENCIES key))"

definition uncached :: "world \<Rightarrow> state \<Rightarrow> pystr \<Rightarrow> pystr \<Rightarrow> real \<Rightarrow> real \<Rightarrow> conversion" where
  "uncached w s base_code quote_code amount commission =
     (if base_code \<in> set crypto_list \<or> quote_code \<in> set crypto_list
      then
        if base_code \<in> set crypto_list \<and> quote_code \<in> set crypto_list
        then convert_crypto_to_crypto w s base_code quote_code amount commission
        else convert_crypto_to_fiat w s base_code quote_code amount commission
      else convert_fiat_to_fiat w s base_code quote_code amount commission)"

definition resolve :: "world \<Rightarrow> state \<Rightarrow> pystr \<Rightarrow> pystr \<Rightarrow> real \<Rightarrow> real \<Rightarrow> conversion" where
  "resolve w s base_code quote_code amount commission =
     (case get_cached_rate w s base_code quote_code of
        (Some (cached_rate, cached_ts), s1) \<Rightarrow>
          (Inr (amount * cached_rate * (1 + commission / 100), cached_ts), s1)
      | (None, s1) \<Rightarrow>
          (case uncached w s1 base_code quote_code amount commission of
             (Inl e, s2) \<Rightarrow> (Inl (reraise e), s2)
           | (Inr (result, ts), s2) \<Rightarrow>
               if amount * (1 + commission / 100) = 0
               then (Inl (ConversionFailed ZeroDivisionError), s2)
               else
                 (Inr (result, ts),
                  cache_rate w s2 base_code quote_code
                    (result / (amount * (1 + commission / 100))))))"

subsection \<open>A world and a state for the examples\<close>

text \<open>
  Both providers answer every request with status 200: the snapshot lists USD at 1, EUR at
  10/11 (so that one euro is 1.1 dollars) and RUB at 90; the price endpoint quotes bitcoin
  and ethereum in \<open>usd\<close> only, whatever currency is asked for.
\<close>

definition example_snapshot :: snapshot where
  "example_snapshot =
     \<lparr>rates = Some [ascii ''USD'' \<mapsto> 1, ascii ''EUR'' \<mapsto> 10 / 11, ascii ''RUB'' \<mapsto> 90],
      timestamp = Some 1700000000\<rparr>"

definition example_prices :: prices where
  "example_prices =
     [ascii ''bitcoin'' \<mapsto> [ascii ''usd'' \<mapsto> 50000],
      ascii ''ethereum'' \<mapsto> [ascii ''usd'' \<mapsto> 2500]]"

definition example_world :: world where
  "example_world =
     \<lparr>clock = (\<lambda>k. 1700000100 + real k),
      coingecko = (\<lambda>k ids vs_currencies. Response 200 (Some example_prices)),
      openexchangerates = (\<lambda>k. Response 200 (Some example_snapshot))\<rparr>"

definition empty_state :: state where
  "empty_state = \<lparr>RATE_CACHE = Map.empty, upstream_log = [], clock_reads = 0\<rparr>"

text \<open>The expressions \<open>100 USD + 50 EUR v RUB\<close> and \<open>100 USD / 0 EUR v RUB\<close> (\<open>v\<close> is U+0432).\<close>

definition expression_sum :: pystr where
  "expression_sum = ascii ''100 USD + 50 EUR '' @ [1074] @ ascii '' RUB''"

definition expression_quotient :: pystr where
  "expression_quotient = ascii ''100 USD / 0 EUR '' @ [1074] @ ascii '' RUB''"

text \<open>
  A state whose cache holds a rate for each of the pairs usd/rub and eur/usd, stored at the
  snapshot's time; and a world where the price endpoint still answers, but the snapshot
  endpoint answers with an object that has neither \<open>rates\<close> nor \<open>timestamp\<close>.
\<close>

definition warm_state :: state where
  "warm_state =
     \<lparr>RATE_CACHE =
        [cache_key (ascii ''usd'') (ascii ''rub'') \<mapsto> (90, 1700000000),
         cache_key (ascii ''eur'') (ascii ''usd'') \<mapsto> (11 / 10, 1700000000)],
      upstream_log = [], clock_reads = 0\<rparr>"

definition no_snapshot_world :: world where
  "no_snapshot_world =
     \<lparr>clock = (\<lambda>k. 1700000100 + real k),
      coingecko = (\<lambda>k ids vs_currencies. Response 200 (Some example_prices)),
      openexchangerates = (\<lambda>k. Response 200 (Some \<lparr>rates = None, timestamp = None\<rparr>))\<rparr>"

text \<open>
  The outcome of a conversion with its amount multiplied by \<open>1 + commission/100\<close>; an error
  and the state are left as they are.
\<close>

definition with_commission :: "real \<Rightarrow> conversion \<Rightarrow> conversion" where
  "with_commission commission outcome =
     (case outcome of
        (Inl e, s) \<Rightarrow> (Inl e, s)
      | (Inr (result, ts), s) \<Rightarrow> (Inr (result * (1 + commission / 100), ts), s))"

text \<open>A world where both providers answer every request with status 500 and no JSON body.\<close>

definition provider_error_world :: world where
  "provider_error_world =
     \<lparr>clock = (\<lambda>k. 1700000100 + real k),
      coingecko = (\<lambda>k ids vs_currencies. Response 500 None),
      openexchangerates = (\<lambda>k. Response 500 None)\<rparr>"

text \<open>A world whose snapshot lists the rouble with the rate 0.\<close>

definition zero_rate_snapshot :: snapshot where
  "zero_rate_snapshot =
     \<lparr>rates = Some [ascii ''USD'' \<mapsto> 1, ascii ''RUB'' \<mapsto> 0], timestamp = Some 1700000000\<rparr>"

definition zero_rate_world :: world where
  "zero_rate_world =
     \<lparr>clock = (\<lambda>k. 1700000100 + real k),
      coingecko = (\<lambda>k ids vs_currencies. Response 200 (Some example_prices)),
      openexchangerates = (\<lambda>k. Response 200 (Some zero_rate_snapshot))\<rparr>"

subsection \<open>normalizeCurrencyName as the specification words it\<close>

text \<open>
  The description of \<open>normalizeCurrencyName\<close>, over the tables of the source: the input is
  lowercased and trimmed; an exact match in the alias table gives its canonical name; else
  the first entry of the table, in its order, whose key is a substring of the input gives
  its canonical name; else the canonical name whose lowercase form is the input; else null.
\<close>

definition normalizeCurrencyName_spec :: "pystr option \<Rightarrow> pystr option" where
  "normalizeCurrencyName_spec raw =
     (case raw of
        None \<Rightarrow> None
      | Some text \<Rightarrow>
          (let input = strip (lower text) in
           case find (\<lambda>entry. fst entry = input) currency_map of
             Some entry \<Rightarrow> Some (snd entry)
           | None \<Rightarrow>
               (case find (\<lambda>entry. sublist (fst entry) input) currency_map of
                  Some entry \<Rightarrow> Some (snd entry)
                | None \<Rightarrow> find (\<lambda>name. lower name = input) (map fst CURRENCIES))))"

section \<open>Lemmas\<close>

lemmas names_defs = Dollar_def Evro_def Rubl_def Yuan_def Belorusskij_rubl_def Indijskaya_rupiya_def
  Bitkoin_def Efirium_def Lajtkoin_def Tezer_def Binans_def Ripl_def Dogikoin_def

lemmas str_defs = ascii_def lower_def upper_def strip_def isspace_def lower_cp_def upper_cp_def

lemma decimal_value_below:
  "c < 1632 \<Longrightarrow> decimal_value c = (if 48 \<le> c \<and> c \<le> 57 then Some (c - 48) else None)"
  by (simp add: decimal_value_def decimal_zeros_def)

lemma isdecimal_below: "c < 1632 \<Longrightarrow> isdecimal c \<longleftrightarrow> 48 \<le> c \<and> c \<le> 57"
  by (simp add: isdecimal_def decimal_value_below)

subsection \<open>Strings\<close>

lemma startswith_prefix: "startswith s key \<longleftrightarrow> prefix key s"
  by (induction s key rule: startswith.induct) auto

lemma contains_sublist: "contains name key \<longleftrightarrow> sublist key name"
proof (induction name)
  case Nil
  show ?case by simp
next
  case (Cons c cs)
  then show ?case by (simp add: startswith_prefix sublist_Cons_right)
qed

lemma isspace_lower_cp: "isspace (lower_cp c) = isspace c"
  unfolding isspace_def lower_cp_def by (simp; arith)

lemma dropWhile_isspace_lower: "dropWhile isspace (lower s) = lower (dropWhile isspace s)"
  by (simp add: lower_def dropWhile_map comp_def isspace_lower_cp)

lemma strip_lower: "strip (lower s) = lower (strip s)"
proof -
  have "rev (lower s) = lower (rev s)" for s by (simp add: lower_def rev_map)
  then show ?thesis by (simp add: strip_def dropWhile_isspace_lower)
qed

lemma lower_Nil_iff: "lower s = [] \<longleftrightarrow> s = []"
  by (simp add: lower_def)

subsection \<open>The three lookups\<close>

lemma map_of_find: "map_of tab k = map_option snd (find (\<lambda>entry. fst entry = k) tab)"
  by (induction tab) auto

lemma partial_match_find:
  "partial_match tab name = map_option snd (find (\<lambda>entry. sublist (fst entry) name) tab)"
  by (induction tab name rule: partial_match.induct) (simp_all add: contains_sublist)

lemma vocabulary_match_find:
  "vocabulary_match ns name = find (\<lambda>n. lower n = name) ns"
  by (induction ns name rule: vocabulary_match.induct) simp_all

lemma currency_map_keys_nonempty: "\<forall>entry \<in> set currency_map. fst entry \<noteq> []"
  by (simp add: currency_map_def ascii_def)

lemma CURRENCIES_names_nonempty: "\<forall>name \<in> set (map fst CURRENCIES). name \<noteq> []"
  by (simp add: CURRENCIES_def names_defs)

lemma normalize_refines_spec: "normalize_currency_name raw = normalizeCurrencyName_spec raw"
proof (cases raw)
  case None
  then show ?thesis by (simp add: normalize_currency_name_def normalizeCurrencyName_spec_def)
next
  case (Some str)
  show ?thesis
  proof (cases "str = []")
    case True
    have "find (\<lambda>entry. fst entry = []) currency_map = None"
      using currency_map_keys_nonempty by (simp only: find_None_iff) blast
    moreover have "find (\<lambda>entry. sublist (fst entry) []) currency_map = None"
      using currency_map_keys_nonempty by (simp only: find_None_iff sublist_Nil_right) blast
    moreover have "find (\<lambda>name. lower name = []) (map fst CURRENCIES) = None"
      using CURRENCIES_names_nonempty by (simp only: find_None_iff lower_Nil_iff) blast
    ultimately show ?thesis
      using Some True
      by (simp add: normalize_currency_name_def normalizeCurrencyName_spec_def strip_def lower_def)
  next
    case False
    with Some show ?thesis
      by (simp add: normalize_currency_name_def normalizeCurrencyName_spec_def Let_def
          strip_lower map_of_find partial_match_find vocabulary_match_find
          split: option.splits)
  qed
qed

subsection \<open>From names to codes\<close>

lemma partial_match_in: "partial_match tab name = Some v \<Longrightarrow> v \<in> snd ` set tab"
  by (induction tab name rule: partial_match.induct) (auto split: if_splits)

lemma vocabulary_match_in: "vocabulary_match ns name = Some v \<Longrightarrow> v \<in> set ns"
  by (induction ns name rule: vocabulary_match.induct) (auto split: if_splits)

lemma currency_map_values: "snd ` set currency_map \<subseteq> fst ` set CURRENCIES"
  by (simp add: currency_map_def CURRENCIES_def)

lemma normalize_canonical:
  assumes "normalize_currency_name x = Some k"
  shows "k \<in> fst ` set CURRENCIES"
proof -
  from assms obtain raw where x: "x = Some raw" "raw \<noteq> []"
    by (cases x) (auto simp: normalize_currency_name_def split: if_splits)
  let ?n = "lower (strip raw)"
  from assms x have "map_of currency_map ?n = Some k \<or> partial_match currency_map ?n = Some k
      \<or> vocabulary_match (map fst CURRENCIES) ?n = Some k"
    by (auto simp: normalize_currency_name_def Let_def split: option.splits)
  then show ?thesis
  proof (elim disjE)
    assume "map_of currency_map ?n = Some k"
    then have "k \<in> snd ` set currency_map" by (metis map_of_SomeD image_eqI snd_conv)
    then show ?thesis using currency_map_values by blast
  next
    assume "partial_match currency_map ?n = Some k"
    then show ?thesis using partial_match_in currency_map_values by blast
  next
    assume "vocabulary_match (map fst CURRENCIES) ?n = Some k"
    then show ?thesis using vocabulary_match_in by fastforce
  qed
qed

lemma CURRENCIES_nonempty_keys: "[] \<notin> fst ` set CURRENCIES"
  by (simp add: CURRENCIES_def names_defs)

lemma get_price_resolve:
  "get_price w s base quote amount commission =
     (case code_of base of
        None \<Rightarrow> (Inl (UnknownCurrency base), s)
      | Some base_code \<Rightarrow>
          (case code_of quote of
             None \<Rightarrow> (Inl (UnknownCurrency quote), s)
           | Some quote_code \<Rightarrow> resolve w s base_code quote_code amount commission))"
proof -
  have key: "\<And>x k. normalize_currency_name x = Some k \<Longrightarrow> k \<noteq> [] \<and> (\<exists>t. map_of CURRENCIES k = Some t)"
  proof -
    fix x k assume "normalize_currency_name x = Some k"
    then have k: "k \<in> fst ` set CURRENCIES" by (rule normalize_canonical)
    then have "k \<noteq> []" using CURRENCIES_nonempty_keys by metis
    moreover from k have "map_of CURRENCIES k \<noteq> None" by (simp add: map_of_eq_None_iff)
    ultimately show "k \<noteq> [] \<and> (\<exists>t. map_of CURRENCIES k = Some t)" by auto
  qed
  show ?thesis
  proof (cases "normalize_currency_name (Some base)")
    case None
    then show ?thesis by (simp add: get_price_def code_of_def)
  next
    case (Some bk)
    from key[OF Some] obtain bt where bk: "bk \<noteq> []" "map_of CURRENCIES bk = Some bt" by auto
    show ?thesis
    proof (cases "normalize_currency_name (Some quote)")
      case None
      with Some bk show ?thesis by (simp add: get_price_def code_of_def)
    next
      case qSome: (Some qk)
      from key[OF qSome] obtain qt where qk: "qk \<noteq> []" "map_of CURRENCIES qk = Some qt" by auto
      show ?thesis
        unfolding get_price_def code_of_def resolve_def uncached_def Let_def
        by (simp add: Some qSome bk qk)
    qed
  qed
qed


subsection \<open>What the conversion paths do to the state\<close>

lemma RATE_CACHE_time_time: "RATE_CACHE (snd (time_time w s)) = RATE_CACHE s"
  by (simp add: time_time_def)

lemma RATE_CACHE_get_simple_price: "RATE_CACHE (snd (get_simple_price w s ids vs)) = RATE_CACHE s"
  by (simp add: get_simple_price_def)

lemma RATE_CACHE_get_latest: "RATE_CACHE (snd (get_latest w s)) = RATE_CACHE s"
  by (simp add: get_latest_def)

lemma RATE_CACHE_get_cached_rate:
  "RATE_CACHE (snd (get_cached_rate w s base quote)) = RATE_CACHE s"
  by (simp add: get_cached_rate_def time_time_def split: option.splits)

lemma RATE_CACHE_base_to_usd_leg: "RATE_CACHE (snd (base_to_usd_leg w s code)) = RATE_CACHE s"
  by (simp add: base_to_usd_leg_def get_simple_price_def get_latest_def time_time_def
      split: option.splits response.splits prod.splits)

lemma RATE_CACHE_usd_to_quote_leg: "RATE_CACHE (snd (usd_to_quote_leg w s code)) = RATE_CACHE s"
  by (simp add: usd_to_quote_leg_def get_simple_price_def get_latest_def time_time_def
      split: option.splits response.splits prod.splits)

lemma RATE_CACHE_convert_via_usd:
  "RATE_CACHE (snd (convert_via_usd w s base_code quote_code amount commission)) = RATE_CACHE s"
proof -
  obtain r1 s1 where l1: "base_to_usd_leg w s base_code = (r1, s1)" by (cases "base_to_usd_leg w s base_code")
  obtain r2 s2 where l2: "usd_to_quote_leg w s1 quote_code = (r2, s2)" by (cases "usd_to_quote_leg w s1 quote_code")
  have c1: "RATE_CACHE s1 = RATE_CACHE s" using RATE_CACHE_base_to_usd_leg[of w s base_code] l1 by simp
  have c2: "RATE_CACHE s2 = RATE_CACHE s1" using RATE_CACHE_usd_to_quote_leg[of w s1 quote_code] l2 by simp
  show ?thesis
    by (simp add: convert_via_usd_def l1 l2 c1 c2 split: sum.splits prod.splits)
qed

lemma RATE_CACHE_convert_crypto_to_crypto:
  "RATE_CACHE (snd (convert_crypto_to_crypto w s base_code quote_code amount commission)) = RATE_CACHE s"
  by (simp add: convert_crypto_to_crypto_def get_simple_price_def time_time_def
      split: option.splits response.splits prod.splits)

lemma RATE_CACHE_convert_fiat_to_fiat:
  "RATE_CACHE (snd (convert_fiat_to_fiat w s base_code quote_code amount commission)) = RATE_CACHE s"
  by (simp add: convert_fiat_to_fiat_def get_latest_def
      split: option.splits response.splits prod.splits)

lemma RATE_CACHE_convert_crypto_to_fiat:
  "RATE_CACHE (snd (convert_crypto_to_fiat w s base_code quote_code amount commission)) = RATE_CACHE s"
  by (simp add: convert_crypto_to_fiat_def get_simple_price_def time_time_def
      RATE_CACHE_convert_via_usd
      split: option.splits response.splits prod.splits)

lemma RATE_CACHE_uncached:
  "RATE_CACHE (snd (uncached w s base_code quote_code amount commission)) = RATE_CACHE s"
  by (simp add: uncached_def RATE_CACHE_convert_crypto_to_crypto RATE_CACHE_convert_fiat_to_fiat
      RATE_CACHE_convert_crypto_to_fiat)

lemma resolve_error_keeps_cache:
  assumes "fst (resolve w s base_code quote_code amount commission) = Inl e"
  shows "RATE_CACHE (snd (resolve w s base_code quote_code amount commission)) = RATE_CACHE s"
proof -
  obtain hit s1 where g: "get_cached_rate w s base_code quote_code = (hit, s1)"
    by (cases "get_cached_rate w s base_code quote_code")
  have c1: "RATE_CACHE s1 = RATE_CACHE s"
    using RATE_CACHE_get_cached_rate[of w s base_code quote_code] g by simp
  show ?thesis
  proof (cases hit)
    case (Some entry)
    with assms g show ?thesis by (simp add: resolve_def split: prod.splits)
  next
    case None
    obtain r s2 where u: "uncached w s1 base_code quote_code amount commission = (r, s2)"
      by (cases "uncached w s1 base_code quote_code amount commission")
    have c2: "RATE_CACHE s2 = RATE_CACHE s1"
      using RATE_CACHE_uncached[of w s1 base_code quote_code amount commission] u by simp
    from assms show ?thesis
      by (auto simp: resolve_def g None u c1 c2 split: sum.splits prod.splits if_splits)
  qed
qed

lemma get_price_error_keeps_cache:
  assumes "fst (get_price w s base quote amount commission) = Inl e"
  shows "RATE_CACHE (snd (get_price w s base quote amount commission)) = RATE_CACHE s"
  using assms
  by (auto simp: get_price_resolve resolve_error_keeps_cache split: option.splits)
subsection \<open>The cache\<close>

lemma resolve_hit:
  assumes "RATE_CACHE s (cache_key base_code quote_code) = Some (rate, ts)"
    and "clock w (clock_reads s) - ts < CACHE_DURATION"
  shows "resolve w s base_code quote_code amount commission =
           (Inr (amount * rate * (1 + commission / 100), ts),
            s\<lparr>clock_reads := Suc (clock_reads s)\<rparr>)"
  using assms by (simp add: resolve_def get_cached_rate_def time_time_def)

lemma resolve_success_entry:
  assumes "fst (resolve w s base_code quote_code amount commission) = Inr r"
  shows "\<exists>rate ts. RATE_CACHE (snd (resolve w s base_code quote_code amount commission))
           (cache_key base_code quote_code) = Some (rate, ts)"
proof -
  obtain hit s1 where g: "get_cached_rate w s base_code quote_code = (hit, s1)"
    by (cases "get_cached_rate w s base_code quote_code")
  show ?thesis
  proof (cases hit)
    case (Some entry)
    from g Some have "RATE_CACHE s (cache_key base_code quote_code) \<noteq> None"
      by (auto simp: get_cached_rate_def split: option.splits)
    moreover have "RATE_CACHE s1 = RATE_CACHE s"
      using RATE_CACHE_get_cached_rate[of w s base_code quote_code] g by simp
    ultimately show ?thesis using g Some
      by (auto simp: resolve_def split: prod.splits)
  next
    case None
    obtain r' s2 where u: "uncached w s1 base_code quote_code amount commission = (r', s2)"
      by (cases "uncached w s1 base_code quote_code amount commission")
    from assms show ?thesis
      by (auto simp: resolve_def g None u cache_rate_def time_time_def
          split: sum.splits prod.splits if_splits)
  qed
qed

subsection \<open>The requests issued\<close>

lemma log_get_cached_rate:
  "upstream_log (snd (get_cached_rate w s base quote)) = upstream_log s"
  by (simp add: get_cached_rate_def time_time_def split: option.splits)

lemma log_cache_rate: "upstream_log (cache_rate w s base quote rate) = upstream_log s"
  by (simp add: cache_rate_def time_time_def)

lemma log_base_to_usd_leg:
  "length (upstream_log (snd (base_to_usd_leg w s code))) = length (upstream_log s) + 1"
  by (simp add: base_to_usd_leg_def get_simple_price_def get_latest_def time_time_def
      split: option.splits response.splits prod.splits)

lemma log_usd_to_quote_leg:
  "length (upstream_log (snd (usd_to_quote_leg w s code))) = length (upstream_log s) + 1"
  by (simp add: usd_to_quote_leg_def get_simple_price_def get_latest_def time_time_def
      split: option.splits response.splits prod.splits)

lemma log_convert_via_usd:
  "length (upstream_log (snd (convert_via_usd w s base_code quote_code amount commission)))
     \<le> length (upstream_log s) + 2"
proof -
  obtain r1 s1 where l1: "base_to_usd_leg w s base_code = (r1, s1)"
    by (cases "base_to_usd_leg w s base_code")
  obtain r2 s2 where l2: "usd_to_quote_leg w s1 quote_code = (r2, s2)"
    by (cases "usd_to_quote_leg w s1 quote_code")
  have c1: "length (upstream_log s1) = length (upstream_log s) + 1"
    using log_base_to_usd_leg[of w s base_code] l1 by simp
  have c2: "length (upstream_log s2) = length (upstream_log s1) + 1"
    using log_usd_to_quote_leg[of w s1 quote_code] l2 by simp
  show ?thesis
    by (simp add: convert_via_usd_def l1 l2 c1 c2 split: sum.splits prod.splits)
qed

lemma log_convert_crypto_to_crypto:
  "length (upstream_log (snd (convert_crypto_to_crypto w s base_code quote_code amount commission)))
     \<le> length (upstream_log s) + 1"
  by (simp add: convert_crypto_to_crypto_def get_simple_price_def time_time_def
      split: option.splits response.splits prod.splits)

lemma log_convert_fiat_to_fiat:
  "length (upstream_log (snd (convert_fiat_to_fiat w s base_code quote_code amount commission)))
     = length (upstream_log s) + 1"
  by (simp add: convert_fiat_to_fiat_def get_latest_def
      split: option.splits response.splits prod.splits)

lemma log_convert_crypto_to_fiat:
  "length (upstream_log (snd (convert_crypto_to_fiat w s base_code quote_code amount commission)))
     \<le> length (upstream_log s) + 3"
proof -
  have via: "length (upstream_log (snd (convert_via_usd w s' base_code quote_code amount commission)))
        \<le> length (upstream_log s) + 3"
    if "length (upstream_log s') = length (upstream_log s) + 1" for s'
    using log_convert_via_usd[of w s' base_code quote_code amount commission] that by linarith
  show ?thesis
    by (auto simp: convert_crypto_to_fiat_def get_simple_price_def time_time_def
        intro!: via split: option.splits response.splits prod.splits)
qed

lemma log_uncached:
  "length (upstream_log (snd (uncached w s base_code quote_code amount commission)))
     \<le> length (upstream_log s) + 3"
  using log_convert_crypto_to_crypto[of w s base_code quote_code amount commission]
    log_convert_fiat_to_fiat[of w s base_code quote_code amount commission]
    log_convert_crypto_to_fiat[of w s base_code quote_code amount commission]
  by (simp add: uncached_def)

lemma log_resolve:
  "length (upstream_log (snd (resolve w s base_code quote_code amount commission)))
     \<le> length (upstream_log s) + 3"
proof -
  obtain hit s1 where g: "get_cached_rate w s base_code quote_code = (hit, s1)"
    by (cases "get_cached_rate w s base_code quote_code")
  have c1: "upstream_log s1 = upstream_log s"
    using log_get_cached_rate[of w s base_code quote_code] g by simp
  obtain r s2 where u: "uncached w s1 base_code quote_code amount commission = (r, s2)"
    by (cases "uncached w s1 base_code quote_code amount commission")
  have c2: "length (upstream_log s2) \<le> length (upstream_log s) + 3"
    using log_uncached[of w s1 base_code quote_code amount commission] u c1 by simp
  show ?thesis
    by (auto simp: resolve_def g u c1 c2 log_cache_rate split: option.splits sum.splits prod.splits)
qed

lemma log_get_price:
  "length (upstream_log (snd (get_price w s base quote amount commission)))
     \<le> length (upstream_log s) + 3"
  by (simp add: get_price_resolve log_resolve split: option.splits)

subsection \<open>The commission\<close>

lemma with_commission_via_usd:
  "convert_via_usd w s base_code quote_code amount commission =
     with_commission commission (convert_via_usd w s base_code quote_code amount 0)"
  by (simp add: convert_via_usd_def with_commission_def split: sum.splits prod.splits)

lemma with_commission_crypto_to_crypto:
  "convert_crypto_to_crypto w s base_code quote_code amount commission =
     with_commission commission (convert_crypto_to_crypto w s base_code quote_code amount 0)"
  by (simp add: convert_crypto_to_crypto_def with_commission_def
      split: option.splits response.splits prod.splits)

lemma with_commission_fiat_to_fiat:
  "convert_fiat_to_fiat w s base_code quote_code amount commission =
     with_commission commission (convert_fiat_to_fiat w s base_code quote_code amount 0)"
  by (simp add: convert_fiat_to_fiat_def with_commission_def
      split: option.splits response.splits prod.splits)

lemma with_commission_crypto_to_fiat:
  "convert_crypto_to_fiat w s base_code quote_code amount commission =
     with_commission commission (convert_crypto_to_fiat w s base_code quote_code amount 0)"
  using with_commission_via_usd[of w _ base_code quote_code amount commission]
  by (simp add: convert_crypto_to_fiat_def with_commission_def
      split: option.splits response.splits prod.splits)

lemma with_commission_uncached:
  "uncached w s base_code quote_code amount commission =
     with_commission commission (uncached w s base_code quote_code amount 0)"
  using with_commission_crypto_to_crypto[of w s base_code quote_code amount commission]
    with_commission_fiat_to_fiat[of w s base_code quote_code amount commission]
    with_commission_crypto_to_fiat[of w s base_code quote_code amount commission]
  by (simp add: uncached_def)

lemma with_commission_resolve:
  assumes "commission \<noteq> - 100"
  shows "resolve w s base_code quote_code amount commission =
           with_commission commission (resolve w s base_code quote_code amount 0)"
proof -
  obtain hit s1 where g: "get_cached_rate w s base_code quote_code = (hit, s1)"
    by (cases "get_cached_rate w s base_code quote_code")
  obtain r s2 where u: "uncached w s1 base_code quote_code amount 0 = (r, s2)"
    by (cases "uncached w s1 base_code quote_code amount 0")
  have u': "uncached w s1 base_code quote_code amount commission = with_commission commission (r, s2)"
    using with_commission_uncached[of w s1 base_code quote_code amount commission] u by simp
  from assms have nz: "1 + commission / 100 \<noteq> 0" by auto
  show ?thesis
    by (cases hit; cases r)
      (auto simp: resolve_def g u u' with_commission_def nz split: prod.splits)
qed

lemma with_commission_get_price:
  assumes "commission \<noteq> - 100"
  shows "get_price w s base quote amount commission =
           with_commission commission (get_price w s base quote amount 0)"
  using with_commission_resolve[OF assms]
  by (simp add: get_price_resolve with_commission_def split: option.splits)

subsection \<open>The USD bridge\<close>

lemma convert_via_usd_outcome:
  assumes "base_to_usd_leg w s base_code = (Inr (base_to_usd, ts1), s1)"
    and "usd_to_quote_leg w s1 quote_code = (Inr (usd_to_quote, ts2), s2)"
  shows "convert_via_usd w s base_code quote_code amount commission =
           (Inr (amount * base_to_usd * usd_to_quote * (1 + commission / 100), max ts1 ts2), s2)"
  using assms by (simp add: convert_via_usd_def)

lemma fiat_leg_absent_ticker:
  assumes "map_of COINGECKO_IDS code = None"
    and "openexchangerates w (length (upstream_log s)) = Response status_code (Some data)"
    and "rates data = Some rs" and "timestamp data = Some ts" and "rs (upper code) = None"
  shows "fst (base_to_usd_leg w s code) = Inr (1, ts)"
    and "fst (usd_to_quote_leg w s code) = Inr (1, ts)"
  using assms by (simp_all add: base_to_usd_leg_def usd_to_quote_leg_def get_latest_def)

subsection \<open>Evaluation on the examples\<close>

lemma parts_quotient: "filter (\<lambda>p. p \<noteq> []) (map strip (re_split [] (filter (\<lambda>c. c \<noteq> 40 \<and> c \<noteq> 41) expression_quotient)))
  = [ascii ''100 USD'', ascii ''/'', ascii ''0 EUR'', [1074], ascii ''RUB'']"
  by (simp add: expression_quotient_def str_defs is_operator_cp_def is_ve_def is_to_def)

lemma parts_sum: "filter (\<lambda>p. p \<noteq> []) (map strip (re_split [] (filter (\<lambda>c. c \<noteq> 40 \<and> c \<noteq> 41) expression_sum)))
  = [ascii ''100 USD'', ascii ''+'', ascii ''50 EUR'', [1074], ascii ''RUB'']"
  by (simp add: expression_sum_def str_defs is_operator_cp_def is_ve_def is_to_def)

lemma normalize_tickers: "normalize_currency_name (Some (ascii ''USD'')) = Some Dollar"
  "normalize_currency_name (Some (ascii ''EUR'')) = Some Evro"
  "normalize_currency_name (Some (ascii ''RUB'')) = Some Rubl"
  by (simp_all add: normalize_currency_name_def currency_map_def str_defs)

lemma code_of_examples:
  "code_of (ascii ''USD'') = Some (ascii ''usd'')"
  "code_of Dollar = Some (ascii ''usd'')"
  "code_of Evro = Some (ascii ''eur'')"
  "code_of Rubl = Some (ascii ''rub'')"
  "code_of Bitkoin = Some (ascii ''btc'')"
  "code_of (ascii ''EUR'') = Some (ascii ''eur'')"
  "code_of Yuan = Some (ascii ''cny'')"
  "code_of (ascii ''Zorkmid'') = None"
  by (simp_all add: code_of_def normalize_currency_name_def currency_map_def CURRENCIES_def str_defs names_defs)

lemma parse_term_examples: "parse_term (ascii ''100 USD'') = Inr (100, ascii ''USD'')"
   "parse_term (ascii ''50 EUR'') = Inr (50, ascii ''EUR'')"
   "parse_term (ascii ''0 EUR'') = Inr (0, ascii ''EUR'')"
  by (simp_all add: parse_term_def term_match_def py_float_def digits_value_def is_number_cp_def
      is_letter_cp_def str_defs decimal_value_below isdecimal_below)

lemmas engine_defs = resolve_def get_cached_rate_def cache_rate_def time_time_def uncached_def
  crypto_list_def convert_fiat_to_fiat_def get_latest_def cache_key_def CACHE_DURATION_def
  convert_crypto_to_fiat_def convert_crypto_to_crypto_def convert_via_usd_def
  base_to_usd_leg_def usd_to_quote_leg_def get_simple_price_def COINGECKO_IDS_def

lemmas example_defs = example_world_def example_snapshot_def example_prices_def empty_state_def
  warm_state_def no_snapshot_world_def provider_error_world_def zero_rate_world_def
  zero_rate_snapshot_def

lemmas normalize_tickers_num = normalize_tickers[unfolded names_defs ascii_def, simplified]
lemmas code_of_num = code_of_examples[unfolded names_defs ascii_def, simplified]
lemmas parse_term_num = parse_term_examples[unfolded ascii_def, simplified]


lemma bitcoin_to_rub_first:
  "get_price example_world empty_state Bitkoin Rubl 1 0 =
     (Inr (4500000, 1700000101),
      \<lparr>RATE_CACHE = [cache_key (ascii ''btc'') (ascii ''rub'') \<mapsto> (4500000, 1700000102)],
       upstream_log =
         [SimplePrice [ascii ''bitcoin''] (ascii ''rub''),
          SimplePrice [ascii ''bitcoin''] (ascii ''usd''), LatestRates],
       clock_reads = 3\<rparr>)"
  by (simp add: get_price_resolve code_of_num engine_defs example_defs str_defs names_defs)

lemma bitcoin_to_rub_second:
  "get_price example_world
       \<lparr>RATE_CACHE = [cache_key (ascii ''btc'') (ascii ''rub'') \<mapsto> (4500000, 1700000102)],
        upstream_log =
          [SimplePrice [ascii ''bitcoin''] (ascii ''rub''),
           SimplePrice [ascii ''bitcoin''] (ascii ''usd''), LatestRates],
        clock_reads = 3\<rparr>
       Bitkoin Rubl 1 0 =
     (Inr (4500000, 1700000102),
      \<lparr>RATE_CACHE = [cache_key (ascii ''btc'') (ascii ''rub'') \<mapsto> (4500000, 1700000102)],
       upstream_log =
         [SimplePrice [ascii ''bitcoin''] (ascii ''rub''),
          SimplePrice [ascii ''bitcoin''] (ascii ''usd''), LatestRates],
       clock_reads = 4\<rparr>)"
  by (simp add: get_price_resolve code_of_num engine_defs example_defs str_defs names_defs)

lemma py_float_examples:
  "py_float (ascii ''1.25'') = Some (5 / 4)"
  "py_float (ascii ''1.2.3'') = None"
  "py_float (ascii ''.'') = None"
  by (simp_all add: py_float_def digits_value_def str_defs decimal_value_below isdecimal_below)

lemma py_float_arabic_indic: "py_float [1633, 1634, 46, 1637] = Some (25 / 2)"
  by (simp add: py_float_def digits_value_def isdecimal_def decimal_value_def decimal_zeros_def)

section \<open>The claims\<close>

text \<open>
  C1, as the code has it. A pair whose cache entry is less than 3600 seconds old is answered
  from the cache: the amount is \<open>amount * rate * (1 + commission/100)\<close>, the timestamp is the
  entry's, and no request is issued. Hence, when a call \<open>get_price(A, B, amt, 0)\<close> returns,
  the pair has an entry; that call has issued at most three requests; and a second call that
  reads the clock within 3600 seconds of the entry issues none and returns
  \<open>amt * rate\<close>.
\<close>

theorem C1_cache_hit:
  assumes "code_of base = Some base_code" and "code_of quote = Some quote_code"
  shows
    "(\<forall>rate ts.
        RATE_CACHE s (cache_key base_code quote_code) = Some (rate, ts) \<and>
        clock w (clock_reads s) - ts < 3600 \<longrightarrow>
        fst (get_price w s base quote amount commission) =
          Inr (amount * rate * (1 + commission / 100), ts) \<and>
        upstream_log (snd (get_price w s base quote amount commission)) = upstream_log s) \<and>
     (\<forall>r s1.
        get_price w s base quote amount 0 = (Inr r, s1) \<longrightarrow>
        length (upstream_log s1) \<le> length (upstream_log s) + 3 \<and>
        (\<exists>rate ts.
           RATE_CACHE s1 (cache_key base_code quote_code) = Some (rate, ts) \<and>
           (clock w (clock_reads s1) - ts < 3600 \<longrightarrow>
            fst (get_price w s1 base quote amount 0) = Inr (amount * rate, ts) \<and>
            upstream_log (snd (get_price w s1 base quote amount 0)) = upstream_log s1)))"
proof (intro conjI allI impI)
  fix rate ts
  assume hit: "RATE_CACHE s (cache_key base_code quote_code) = Some (rate, ts) \<and>
    clock w (clock_reads s) - ts < 3600"
  then have "resolve w s base_code quote_code amount commission =
      (Inr (amount * rate * (1 + commission / 100), ts), s\<lparr>clock_reads := Suc (clock_reads s)\<rparr>)"
    by (intro resolve_hit) (simp_all add: CACHE_DURATION_def)
  with assms show
    "fst (get_price w s base quote amount commission) =
       Inr (amount * rate * (1 + commission / 100), ts)"
    and "upstream_log (snd (get_price w s base quote amount commission)) = upstream_log s"
    by (simp_all add: get_price_resolve)
next
  fix r s1
  assume first: "get_price w s base quote amount 0 = (Inr r, s1)"
  show "length (upstream_log s1) \<le> length (upstream_log s) + 3"
    using log_get_price[of w s base quote amount 0] first by simp
  from first assms have res: "resolve w s base_code quote_code amount 0 = (Inr r, s1)"
    by (simp add: get_price_resolve)
  then obtain rate ts where
    entry: "RATE_CACHE s1 (cache_key base_code quote_code) = Some (rate, ts)"
    using resolve_success_entry[of w s base_code quote_code amount 0 r] by auto
  have "fst (get_price w s1 base quote amount 0) = Inr (amount * rate, ts) \<and>
      upstream_log (snd (get_price w s1 base quote amount 0)) = upstream_log s1"
    if fresh: "clock w (clock_reads s1) - ts < 3600"
  proof -
    have "resolve w s1 base_code quote_code amount 0 =
        (Inr (amount * rate * (1 + 0 / 100), ts), s1\<lparr>clock_reads := Suc (clock_reads s1)\<rparr>)"
      using entry fresh by (intro resolve_hit) (simp_all add: CACHE_DURATION_def)
    with assms show ?thesis by (simp add: get_price_resolve)
  qed
  with entry show "\<exists>rate ts.
      RATE_CACHE s1 (cache_key base_code quote_code) = Some (rate, ts) \<and>
      (clock w (clock_reads s1) - ts < 3600 \<longrightarrow>
       fst (get_price w s1 base quote amount 0) = Inr (amount * rate, ts) \<and>
       upstream_log (snd (get_price w s1 base quote amount 0)) = upstream_log s1)"
    by blast
qed

theorem C1_cache_hit_witness:
  "fst (get_price example_world warm_state Dollar Rubl 2 10) = Inr (198, 1700000000) \<and>
   upstream_log (snd (get_price example_world warm_state Dollar Rubl 2 10)) = [] \<and>
   fst (get_price example_world (snd (get_price example_world empty_state Bitkoin Rubl 1 0))
          Bitkoin Rubl 1 0) = Inr (4500000, 1700000102) \<and>
   length (upstream_log (snd (get_price example_world empty_state Bitkoin Rubl 1 0))) \<le> 3"
proof -
  have usd: "code_of Dollar = Some (ascii ''usd'')" and rub: "code_of Rubl = Some (ascii ''rub'')"
    and btc: "code_of Bitkoin = Some (ascii ''btc'')"
    by (simp_all add: code_of_examples)
  have entry: "RATE_CACHE warm_state (cache_key (ascii ''usd'') (ascii ''rub'')) =
      Some (90, 1700000000) \<and>
      clock example_world (clock_reads warm_state) - 1700000000 < 3600"
    by (simp add: example_defs cache_key_def str_defs)
  note hit = C1_cache_hit [OF usd rub, where s = warm_state and w = example_world and amount = 2
      and commission = 10, THEN conjunct1,
      rule_format, OF entry]
  note twice = C1_cache_hit [OF btc rub, where s = empty_state and w = example_world and amount = 1,
      THEN conjunct2,
      rule_format, OF bitcoin_to_rub_first]
  from twice obtain rate ts where
    e: "RATE_CACHE
          \<lparr>RATE_CACHE = [cache_key (ascii ''btc'') (ascii ''rub'') \<mapsto> (4500000, 1700000102)],
           upstream_log =
             [SimplePrice [ascii ''bitcoin''] (ascii ''rub''),
              SimplePrice [ascii ''bitcoin''] (ascii ''usd''), LatestRates],
           clock_reads = 3\<rparr>
          (cache_key (ascii ''btc'') (ascii ''rub'')) = Some (rate, ts)"
    by blast
  then have "rate = 4500000" "ts = 1700000102" by simp_all
  with hit twice show ?thesis
    by (simp add: bitcoin_to_rub_first bitcoin_to_rub_second warm_state_def)
qed

text \<open>
  C1, as it is stated, fails where the crypto/fiat path falls back to the USD bridge: with a
  price endpoint that answers 200 without a direct quote in roubles, the first of two
  consecutive calls \<open>get_price(Bitkoin, Rubl', 1, 0)\<close> issues three requests, it returns and
  stores the rate, the second call is answered from that entry, and the two calls together
  have issued three requests, not at most one.
\<close>

theorem C1_bridge_counterexample:
  "fst (get_price example_world empty_state Bitkoin Rubl 1 0) = Inr (4500000, 1700000101) \<and>
   fst (get_price example_world (snd (get_price example_world empty_state Bitkoin Rubl 1 0))
          Bitkoin Rubl 1 0) = Inr (1 * 4500000, 1700000102) \<and>
   \<not> length (upstream_log
        (snd (get_price example_world (snd (get_price example_world empty_state Bitkoin Rubl 1 0))
                Bitkoin Rubl 1 0))) \<le> 1"
  by (simp add: bitcoin_to_rub_first bitcoin_to_rub_second)

text \<open>
  C2, as the code has it. For two fiat codes on a cache miss, \<open>get_price\<close> fails with
  \<open>UpstreamUnavailable\<close> when the status of the snapshot request is not 200, when the body
  lacks \<open>rates\<close> or \<open>timestamp\<close>, and when the snapshot lacks either ticker or lists it
  with the rate 0; and when both tickers have a non-zero rate and
  \<open>amount * (1 + commission/100)\<close> is not 0, it returns
  \<open>(amount / base_rate) * quote_rate * (1 + commission/100)\<close> with the snapshot's own
  timestamp. With USD at 1 and RUB at 90, \<open>get_price(Dollar, Rubl', 100, 0)\<close> returns 9000
  and the snapshot's timestamp.
\<close>

theorem C2_fiat_to_fiat:
  assumes "code_of base = Some base_code" and "code_of quote = Some quote_code"
    and "base_code \<notin> set crypto_list" and "quote_code \<notin> set crypto_list"
    and "fst (get_cached_rate w s base_code quote_code) = None"
    and "openexchangerates w (length (upstream_log s)) = Response status_code body"
  shows
    "(status_code \<noteq> 200 \<longrightarrow>
        fst (get_price w s base quote amount commission) =
          Inl (UpstreamUnavailable OpenExchangeStatus)) \<and>
     (\<forall>data. status_code = 200 \<and> body = Some data \<longrightarrow>
        ((rates data = None \<or> timestamp data = None) \<longrightarrow>
           fst (get_price w s base quote amount commission) =
             Inl (UpstreamUnavailable OpenExchangeFields)) \<and>
        (\<forall>rs ts. rates data = Some rs \<and> timestamp data = Some ts \<longrightarrow>
           ((rs (upper base_code) = None \<or> rs (upper quote_code) = None \<or>
             rs (upper base_code) = Some 0 \<or> rs (upper quote_code) = Some 0) \<longrightarrow>
              fst (get_price w s base quote amount commission) =
                Inl (UpstreamUnavailable TickerNotFound)) \<and>
           (\<forall>base_rate quote_rate.
              rs (upper base_code) = Some base_rate \<and> rs (upper quote_code) = Some quote_rate \<and>
              base_rate \<noteq> 0 \<and> quote_rate \<noteq> 0 \<and> amount * (1 + commission / 100) \<noteq> 0 \<longrightarrow>
              fst (get_price w s base quote amount commission) =
                Inr ((amount / base_rate) * quote_rate * (1 + commission / 100), ts)))) \<and>
     fst (get_price example_world empty_state Dollar Rubl 100 0) = Inr (9000, 1700000000)"
proof -
  have example: "fst (get_price example_world empty_state Dollar Rubl 100 0) = Inr (9000, 1700000000)"
    by (simp add: get_price_resolve code_of_num engine_defs example_defs str_defs names_defs)
  obtain s1 where miss: "get_cached_rate w s base_code quote_code = (None, s1)"
    using assms(5) by (cases "get_cached_rate w s base_code quote_code") simp
  have log: "upstream_log s1 = upstream_log s"
    using log_get_cached_rate[of w s base_code quote_code] miss by simp
  have answer: "openexchangerates w (length (upstream_log s1)) = Response status_code body"
    using assms(6) log by simp
  have path: "get_price w s base quote amount commission =
      (case convert_fiat_to_fiat w s1 base_code quote_code amount commission of
         (Inl e, s2) \<Rightarrow> (Inl (reraise e), s2)
       | (Inr (result, ts), s2) \<Rightarrow>
           if amount * (1 + commission / 100) = 0
           then (Inl (ConversionFailed ZeroDivisionError), s2)
           else (Inr (result, ts),
                 cache_rate w s2 base_code quote_code
                   (result / (amount * (1 + commission / 100)))))"
    using assms(1-4) miss by (simp add: get_price_resolve resolve_def uncached_def)
  from answer example show ?thesis
    unfolding path
    by (auto simp: convert_fiat_to_fiat_def get_latest_def split: option.splits)
qed

theorem C2_fiat_to_fiat_witness:
  "fst (get_price example_world empty_state Dollar Rubl 100 10) =
     Inr (100 / 1 * 90 * (1 + 10 / 100), 1700000000) \<and>
   fst (get_price example_world empty_state Dollar Yuan 100 10) =
     Inl (UpstreamUnavailable TickerNotFound) \<and>
   fst (get_price zero_rate_world empty_state Dollar Rubl 100 10) =
     Inl (UpstreamUnavailable TickerNotFound) \<and>
   fst (get_price no_snapshot_world empty_state Dollar Rubl 100 10) =
     Inl (UpstreamUnavailable OpenExchangeFields) \<and>
   fst (get_price provider_error_world empty_state Dollar Rubl 100 10) =
     Inl (UpstreamUnavailable OpenExchangeStatus)"
proof -
  have usd: "code_of Dollar = Some (ascii ''usd'')" and rub: "code_of Rubl = Some (ascii ''rub'')"
    and cny: "code_of Yuan = Some (ascii ''cny'')"
    by (simp_all add: code_of_examples)
  have fiat: "ascii ''usd'' \<notin> set crypto_list" "ascii ''rub'' \<notin> set crypto_list"
    "ascii ''cny'' \<notin> set crypto_list"
    by (simp_all add: crypto_list_def ascii_def)
  have miss: "fst (get_cached_rate w empty_state base_code quote_code) = None"
    for w base_code quote_code
    by (simp add: get_cached_rate_def empty_state_def)
  have ok: "openexchangerates example_world (length (upstream_log empty_state)) =
      Response 200 (Some example_snapshot)"
    and zero: "openexchangerates zero_rate_world (length (upstream_log empty_state)) =
      Response 200 (Some zero_rate_snapshot)"
    and nofields: "openexchangerates no_snapshot_world (length (upstream_log empty_state)) =
      Response 200 (Some \<lparr>rates = None, timestamp = None\<rparr>)"
    and down: "openexchangerates provider_error_world (length (upstream_log empty_state)) =
      Response 500 None"
    by (simp_all add: example_defs)
  have r: "rates example_snapshot =
      Some [ascii ''USD'' \<mapsto> 1, ascii ''EUR'' \<mapsto> 10 / 11, ascii ''RUB'' \<mapsto> 90] \<and>
      timestamp example_snapshot = Some 1700000000"
    and rz: "rates zero_rate_snapshot = Some [ascii ''USD'' \<mapsto> 1, ascii ''RUB'' \<mapsto> 0] \<and>
      timestamp zero_rate_snapshot = Some 1700000000"
    by (simp_all add: example_defs)
  have listed:
    "[ascii ''USD'' \<mapsto> 1, ascii ''EUR'' \<mapsto> 10 / 11, ascii ''RUB'' \<mapsto> (90::real)]
      (upper (ascii ''usd'')) = Some 1"
    "[ascii ''USD'' \<mapsto> 1, ascii ''EUR'' \<mapsto> 10 / 11, ascii ''RUB'' \<mapsto> (90::real)]
      (upper (ascii ''rub'')) = Some 90"
    "[ascii ''USD'' \<mapsto> 1, ascii ''EUR'' \<mapsto> 10 / 11, ascii ''RUB'' \<mapsto> (90::real)]
      (upper (ascii ''cny'')) = None"
    "[ascii ''USD'' \<mapsto> 1, ascii ''RUB'' \<mapsto> (0::real)] (upper (ascii ''rub'')) = Some 0"
    by (simp_all add: str_defs)
  note t1 = C2_fiat_to_fiat [OF usd rub fiat(1) fiat(2) miss ok,
      where amount = 100 and commission = 10]
  note t2 = C2_fiat_to_fiat [OF usd cny fiat(1) fiat(3) miss ok,
      where amount = 100 and commission = 10]
  note t3 = C2_fiat_to_fiat [OF usd rub fiat(1) fiat(2) miss zero,
      where amount = 100 and commission = 10]
  note t4 = C2_fiat_to_fiat [OF usd rub fiat(1) fiat(2) miss nofields,
      where amount = 100 and commission = 10]
  note t5 = C2_fiat_to_fiat [OF usd rub fiat(1) fiat(2) miss down,
      where amount = 100 and commission = 10]
  have "fst (get_price example_world empty_state Dollar Rubl 100 10) =
     Inr (100 / 1 * 90 * (1 + 10 / 100), 1700000000)"
    using t1 r listed by simp
  moreover have "fst (get_price example_world empty_state Dollar Yuan 100 10) =
     Inl (UpstreamUnavailable TickerNotFound)"
    using t2 r listed by simp
  moreover have "fst (get_price zero_rate_world empty_state Dollar Rubl 100 10) =
     Inl (UpstreamUnavailable TickerNotFound)"
    using t3 rz listed by simp
  moreover have "fst (get_price no_snapshot_world empty_state Dollar Rubl 100 10) =
     Inl (UpstreamUnavailable OpenExchangeFields)"
    using t4 by simp
  moreover have "fst (get_price provider_error_world empty_state Dollar Rubl 100 10) =
     Inl (UpstreamUnavailable OpenExchangeStatus)"
    using t5 by simp
  ultimately show ?thesis by blast
qed

text \<open>
  C2, as it is stated, fails in two places. From an empty cache, with a snapshot of status
  200 that has both fields and lists USD at 1 and RUB at 0, neither ticker is absent, and
  \<open>get_price(Dollar, Rubl', 100, 0)\<close> does not return \<open>(100 / 1) * 0 = 0\<close>: the code takes a
  rate of 0 for a missing one and fails with \<open>UpstreamUnavailable\<close>. And with USD at 1 and
  RUB at 90, \<open>get_price(Dollar, Rubl', 0, 0)\<close> does not return \<open>(0 / 1) * 90 = 0\<close>: it raises
  the generic \<open>ConversionFailed\<close>.
\<close>

theorem C2_zero_rate_counterexample:
  "openexchangerates zero_rate_world 0 = Response 200 (Some zero_rate_snapshot) \<and>
   map_option (\<lambda>rs. (rs (ascii ''USD''), rs (ascii ''RUB''))) (rates zero_rate_snapshot) =
     Some (Some 1, Some 0) \<and>
   timestamp zero_rate_snapshot = Some 1700000000 \<and>
   fst (get_price zero_rate_world empty_state Dollar Rubl 100 0) =
     Inl (UpstreamUnavailable TickerNotFound) \<and>
   fst (get_price example_world empty_state Dollar Rubl 0 0) =
     Inl (ConversionFailed ZeroDivisionError)"
  by (simp add: get_price_resolve code_of_num engine_defs example_defs str_defs names_defs)

text \<open>
  C3. With a snapshot that lists USD at 1, EUR at 10/11 and RUB at 90 (one euro is 1.1
  dollars, one dollar is 90 roubles), the expression \<open>100 USD + 50 EUR v RUB\<close>, which
  \<open>text_converter\<close> takes as a complex expression, is cut into the parts \<open>100 USD\<close>, \<open>+\<close>,
  \<open>50 EUR\<close>, \<open>v\<close>, \<open>RUB\<close>; the loop starts from the total 0 and the operator \<open>+\<close>, a marker
  ends it with the joined rest as the target; the evaluation gives 155 USD and the target
  Rubl', and the caller's \<open>get_price('USD', target, 155)\<close> gives 13950.
\<close>

theorem C3_sum_expression:
  "is_complex_expression expression_sum \<and>
   fst (process_complex_expression example_world empty_state expression_sum) = Inr (155, Rubl) \<and>
   fst (text_converter example_world empty_state expression_sum) =
     Inr (155, Rubl, 13950, 1700000000) \<and>
   fst (get_price example_world empty_state Evro (ascii ''USD'') 1 0) = Inr (11 / 10, 1700000000) \<and>
   fst (get_price example_world empty_state (ascii ''USD'') Rubl 1 0) = Inr (90, 1700000000) \<and>
   fst (get_price example_world empty_state Dollar (ascii ''USD'') 1 0) = Inr (1, 1700000000) \<and>
   filter (\<lambda>p. p \<noteq> [])
     (map strip (re_split [] (filter (\<lambda>c. c \<noteq> 40 \<and> c \<noteq> 41) expression_sum))) =
     [ascii ''100 USD'', ascii ''+'', ascii ''50 EUR'', [1074], ascii ''RUB''] \<and>
   fst (process_complex_expression example_world empty_state expression_sum) =
     fst (case fold_parts example_world empty_state 0 (ascii ''+'')
                 [ascii ''100 USD'', ascii ''+'', ascii ''50 EUR'', [1074], ascii ''RUB''] of
            (Inl e, s1) \<Rightarrow> (Inl e, s1)
          | (Inr (total_usd, target), s1) \<Rightarrow> (Inr (total_usd, Rubl), s1)) \<and>
   fold_parts w s total_usd current_operator ([1074] # ascii ''RUB'' # rest) =
     (Inr (total_usd, Some (join (ascii '' '') (ascii ''RUB'' # rest))), s) \<and>
   fold_parts w s total_usd current_operator (ascii ''to'' # ascii ''RUB'' # rest) =
     (Inr (total_usd, Some (join (ascii '' '') (ascii ''RUB'' # rest))), s)"
proof -
  have total:
    "fst (process_complex_expression example_world empty_state expression_sum) = Inr (155, Rubl)"
    unfolding process_complex_expression_def parts_sum Let_def
    by (simp add: parse_term_num normalize_tickers_num get_price_resolve code_of_num
        engine_defs example_defs str_defs names_defs)
  have final: "fst (text_converter example_world empty_state expression_sum) =
      Inr (155, Rubl, 13950, 1700000000)"
    unfolding text_converter_def process_complex_expression_def parts_sum Let_def
    by (simp add: parse_term_num normalize_tickers_num get_price_resolve code_of_num
        engine_defs example_defs str_defs names_defs)
  have rates_of_world:
    "fst (get_price example_world empty_state Evro (ascii ''USD'') 1 0) = Inr (11 / 10, 1700000000)"
    "fst (get_price example_world empty_state (ascii ''USD'') Rubl 1 0) = Inr (90, 1700000000)"
    "fst (get_price example_world empty_state Dollar (ascii ''USD'') 1 0) = Inr (1, 1700000000)"
    by (simp_all add: get_price_resolve code_of_num engine_defs example_defs str_defs names_defs)
  have loop: "fst (process_complex_expression example_world empty_state expression_sum) =
     fst (case fold_parts example_world empty_state 0 (ascii ''+'')
                 [ascii ''100 USD'', ascii ''+'', ascii ''50 EUR'', [1074], ascii ''RUB''] of
            (Inl e, s1) \<Rightarrow> (Inl e, s1)
          | (Inr (total_usd, target), s1) \<Rightarrow> (Inr (total_usd, Rubl), s1))"
    unfolding process_complex_expression_def parts_sum Let_def
    by (simp add: parse_term_num normalize_tickers_num get_price_resolve code_of_num
        engine_defs example_defs str_defs names_defs)
  have marker:
    "fold_parts w s total_usd current_operator ([1074] # ascii ''RUB'' # rest) =
       (Inr (total_usd, Some (join (ascii '' '') (ascii ''RUB'' # rest))), s)"
    "fold_parts w s total_usd current_operator (ascii ''to'' # ascii ''RUB'' # rest) =
       (Inr (total_usd, Some (join (ascii '' '') (ascii ''RUB'' # rest))), s)"
    by (simp_all add: lower_def lower_cp_def ascii_def)
  have complex: "is_complex_expression expression_sum"
    by (simp add: is_complex_expression_def expression_sum_def is_operator_cp_def ascii_def)
  from complex total final rates_of_world parts_sum loop marker show ?thesis by blast
qed

text \<open>
  C4 on the code. From an empty cache, with both providers answering every request with
  status 200 and usable rates, the expression \<open>100 USD / 0 EUR v RUB\<close> does not fail with
  \<open>DivisionByZero\<close>: the conversion of the term \<open>0 EUR\<close> raises the generic
  \<open>ConversionFailed\<close> inside \<open>get_price\<close>, before the test \<open>converted == 0\<close> is reached. The
  test is reached, and \<open>DivisionByZero\<close> is raised, when the pair eur/usd is in the cache.
\<close>

theorem C4_quotient_expression:
  "fst (process_complex_expression example_world empty_state expression_quotient) =
     Inl (ConversionFailed ZeroDivisionError) \<and>
   fst (process_complex_expression example_world warm_state expression_quotient) =
     Inl DivisionByZero"
proof -
  have cold: "fst (process_complex_expression example_world empty_state expression_quotient) =
      Inl (ConversionFailed ZeroDivisionError)"
    unfolding process_complex_expression_def parts_quotient Let_def
    by (simp add: parse_term_num normalize_tickers_num get_price_resolve code_of_num
        engine_defs example_defs str_defs names_defs)
  have warm: "fst (process_complex_expression example_world warm_state expression_quotient) =
      Inl DivisionByZero"
    unfolding process_complex_expression_def parts_quotient Let_def
    by (simp add: parse_term_num normalize_tickers_num get_price_resolve code_of_num
        engine_defs example_defs str_defs names_defs)
  from cold warm show ?thesis by blast
qed

text \<open>
  C5. A crypto/fiat conversion asks the price endpoint for the crypto asset quoted in the
  fiat code. When the answer has status 200 but no entry for the asset, or an entry without
  the fiat code, \<open>convert_crypto_to_fiat\<close> is \<open>convert_via_usd\<close> on the same arguments (from
  the state after that one request and one clock reading); when the status is not 200 it
  fails with \<open>UpstreamUnavailable\<close> after that one request, and the bridge is not tried.
\<close>

theorem C5_direct_quote_absent:
  assumes "(crypto_code, fiat_code) =
             (if base_code \<in> set (map fst COINGECKO_IDS) then (base_code, quote_code)
              else (quote_code, base_code))"
    and "map_of COINGECKO_IDS crypto_code = Some crypto_id"
    and "coingecko w (length (upstream_log s)) [crypto_id] fiat_code = Response status_code body"
  shows
    "(\<forall>data.
        status_code = 200 \<and> body = Some data \<and>
        (data crypto_id = None \<or> (\<exists>entry. data crypto_id = Some entry \<and> entry fiat_code = None))
        \<longrightarrow>
        convert_crypto_to_fiat w s base_code quote_code amount commission =
          convert_via_usd w
            (s\<lparr>upstream_log := upstream_log s @ [SimplePrice [crypto_id] fiat_code],
               clock_reads := Suc (clock_reads s)\<rparr>)
            base_code quote_code amount commission) \<and>
     (status_code \<noteq> 200 \<longrightarrow>
        convert_crypto_to_fiat w s base_code quote_code amount commission =
          (Inl (UpstreamUnavailable CoinGeckoStatus),
           s\<lparr>upstream_log := upstream_log s @ [SimplePrice [crypto_id] fiat_code]\<rparr>))"
proof (cases "base_code \<in> set (map fst COINGECKO_IDS)")
  case True
  with assms show ?thesis
    by (auto simp: convert_crypto_to_fiat_def get_simple_price_def time_time_def)
next
  case False
  with assms show ?thesis
    by (auto simp: convert_crypto_to_fiat_def get_simple_price_def time_time_def)
qed

theorem C5_direct_quote_absent_witness:
  "convert_crypto_to_fiat example_world empty_state (ascii ''btc'') (ascii ''rub'') 1 0 =
     convert_via_usd example_world
       (empty_state\<lparr>upstream_log :=
            upstream_log empty_state @ [SimplePrice [ascii ''bitcoin''] (ascii ''rub'')],
          clock_reads := Suc (clock_reads empty_state)\<rparr>)
       (ascii ''btc'') (ascii ''rub'') 1 0 \<and>
   fst (convert_crypto_to_fiat example_world empty_state (ascii ''btc'') (ascii ''rub'') 1 0) =
     Inr (4500000, 1700000101) \<and>
   convert_crypto_to_fiat provider_error_world empty_state (ascii ''btc'') (ascii ''rub'') 1 0 =
     (Inl (UpstreamUnavailable CoinGeckoStatus),
      empty_state\<lparr>upstream_log :=
          upstream_log empty_state @ [SimplePrice [ascii ''bitcoin''] (ascii ''rub'')]\<rparr>)"
proof -
  have side: "(ascii ''btc'', ascii ''rub'') =
      (if ascii ''btc'' \<in> set (map fst COINGECKO_IDS) then (ascii ''btc'', ascii ''rub'')
       else (ascii ''rub'', ascii ''btc''))"
    by (simp add: COINGECKO_IDS_def str_defs)
  have id: "map_of COINGECKO_IDS (ascii ''btc'') = Some (ascii ''bitcoin'')"
    by (simp add: COINGECKO_IDS_def str_defs)
  have ok: "coingecko example_world (length (upstream_log empty_state)) [ascii ''bitcoin'']
      (ascii ''rub'') = Response 200 (Some example_prices)"
    by (simp add: example_defs)
  have down: "coingecko provider_error_world (length (upstream_log empty_state))
      [ascii ''bitcoin''] (ascii ''rub'') = Response 500 None"
    by (simp add: example_defs)
  have absent: "\<exists>entry. example_prices (ascii ''bitcoin'') = Some entry \<and> entry (ascii ''rub'') = None"
    by (simp add: example_defs str_defs)
  have bridge: "fst (convert_via_usd example_world
       (empty_state\<lparr>upstream_log :=
            upstream_log empty_state @ [SimplePrice [ascii ''bitcoin''] (ascii ''rub'')],
          clock_reads := Suc (clock_reads empty_state)\<rparr>)
       (ascii ''btc'') (ascii ''rub'') 1 0) = Inr (4500000, 1700000101)"
    by (simp add: engine_defs example_defs str_defs)
  from C5_direct_quote_absent [OF side id ok, where amount = 1 and commission = 0] absent
  have fallback:
    "convert_crypto_to_fiat example_world empty_state (ascii ''btc'') (ascii ''rub'') 1 0 =
     convert_via_usd example_world
       (empty_state\<lparr>upstream_log :=
            upstream_log empty_state @ [SimplePrice [ascii ''bitcoin''] (ascii ''rub'')],
          clock_reads := Suc (clock_reads empty_state)\<rparr>)
       (ascii ''btc'') (ascii ''rub'') 1 0"
    by blast
  from C5_direct_quote_absent [OF side id down, where amount = 1 and commission = 0]
  have refused:
    "convert_crypto_to_fiat provider_error_world empty_state (ascii ''btc'') (ascii ''rub'') 1 0 =
     (Inl (UpstreamUnavailable CoinGeckoStatus),
      empty_state\<lparr>upstream_log :=
          upstream_log empty_state @ [SimplePrice [ascii ''bitcoin''] (ascii ''rub'')]\<rparr>)"
    by simp
  from fallback bridge refused show ?thesis by simp
qed

text \<open>
  C6 at a fiat base. With RUB at 90 in the snapshot and bitcoin at 50000 USD, the bridge
  converts 9000 roubles to \<open>9000 * 90 * (1/50000) = 16.2\<close> bitcoin, also when it is reached
  through \<open>get_price\<close>: for the fiat side it takes the snapshot's rate, which is the rate
  from USD to the rouble, as the rate from the rouble to USD. The rate from the rouble to USD
  is 1/90, as the fiat path of the same code has it, and with it the amount of the claim is
  \<open>9000 * (1/90) * (1/50000) = 0.002\<close>. With the crypto side as the base the bridge is
  right: one bitcoin is \<open>1 * 50000 * 90\<close> roubles.
\<close>

theorem C6_fiat_base_rate_inverted:
  "fst (convert_via_usd example_world empty_state (ascii ''rub'') (ascii ''btc'') 9000 0) =
     Inr (81 / 5, 1700000100) \<and>
   fst (get_price example_world empty_state Rubl Bitkoin 9000 0) = Inr (81 / 5, 1700000101) \<and>
   (81 / 5 :: real) \<noteq> 9000 * (1 / 90) * (1 / 50000) \<and>
   fst (convert_fiat_to_fiat example_world empty_state (ascii ''rub'') (ascii ''usd'') 1 0) =
     Inr (1 / 90, 1700000000) \<and>
   fst (convert_via_usd example_world empty_state (ascii ''btc'') (ascii ''rub'') 1 0) =
     Inr (1 * 50000 * 90, 1700000100)"
  by (simp add: get_price_resolve code_of_num engine_defs example_defs str_defs names_defs)

text \<open>
  C7 at a commission of -100 percent, from an empty cache with both providers answering:
  \<open>get_price(Dollar, Rubl', 100, 0)\<close> returns 9000, and \<open>get_price(Dollar, Rubl', 100, -100)\<close>
  does not return \<open>9000 * (1 + (-100)/100) = 0\<close> but raises the generic \<open>ConversionFailed\<close>,
  from the division by \<open>amount * (1 + commission/100) = 0\<close>. With the pair in the cache the
  same call does return 0.
\<close>

theorem C7_full_discount_raises:
  "fst (get_price example_world empty_state Dollar Rubl 100 0) = Inr (9000, 1700000000) \<and>
   fst (get_price example_world empty_state Dollar Rubl 100 (- 100)) =
     Inl (ConversionFailed ZeroDivisionError) \<and>
   fst (get_price example_world warm_state Dollar Rubl 100 (- 100)) = Inr (0, 1700000000)"
  by (simp add: get_price_resolve code_of_num engine_defs example_defs str_defs names_defs)

text \<open>
  C8. \<open>normalize_currency_name\<close> is the function the specification describes; and it
  returns null for null, for the empty string, for white space and for a word that matches
  nothing, while a ticker, a canonical name and an alias of one currency give one canonical
  name.
\<close>

theorem C8_normalize_currency_name:
  "normalize_currency_name raw = normalizeCurrencyName_spec raw \<and>
   normalize_currency_name None = None \<and>
   normalize_currency_name (Some []) = None \<and>
   normalize_currency_name (Some (ascii ''   '')) = None \<and>
   normalize_currency_name (Some (ascii ''Zorkmid'')) = None \<and>
   normalize_currency_name (Some (ascii '' USD '')) = Some Dollar \<and>
   normalize_currency_name (Some Dollar) = Some Dollar \<and>
   normalize_currency_name (Some [1073, 1072, 1082, 1089]) = Some Dollar \<and>
   normalize_currency_name (Some (ascii ''my rub account'')) = Some Rubl"
proof -
  have examples:
    "normalize_currency_name None = None"
    "normalize_currency_name (Some []) = None"
    "normalize_currency_name (Some (ascii ''   '')) = None"
    "normalize_currency_name (Some (ascii ''Zorkmid'')) = None"
    "normalize_currency_name (Some (ascii '' USD '')) = Some Dollar"
    "normalize_currency_name (Some Dollar) = Some Dollar"
    "normalize_currency_name (Some [1073, 1072, 1082, 1089]) = Some Dollar"
    "normalize_currency_name (Some (ascii ''my rub account'')) = Some Rubl"
    by (simp_all add: normalize_currency_name_def currency_map_def CURRENCIES_def str_defs
        names_defs)
  with normalize_refines_spec [of raw] show ?thesis by blast
qed

text \<open>
  C9. Whenever \<open>get_price\<close> raises, whatever the error and whatever path raised it, the rate
  cache after the call is the rate cache before the call: \<open>cache_rate\<close> runs only after a
  resolution that succeeded in full.
\<close>

theorem C9_error_leaves_cache:
  assumes "fst (get_price w s base quote amount commission) = Inl e"
  shows "RATE_CACHE (snd (get_price w s base quote amount commission)) = RATE_CACHE s"
  using assms by (rule get_price_error_keeps_cache)

theorem C9_error_leaves_cache_witness:
  "fst (get_price no_snapshot_world warm_state Bitkoin Rubl 1 0) = Inl (BridgeFailed KeyError) \<and>
   RATE_CACHE (snd (get_price no_snapshot_world warm_state Bitkoin Rubl 1 0)) =
     RATE_CACHE warm_state"
proof -
  have failed:
    "fst (get_price no_snapshot_world warm_state Bitkoin Rubl 1 0) = Inl (BridgeFailed KeyError)"
    by (simp add: get_price_resolve code_of_num engine_defs example_defs str_defs names_defs)
  from failed C9_error_leaves_cache [OF failed] show ?thesis by simp
qed

text \<open>
  C10. For a pair with no fresh cache entry, \<open>get_price\<close> with amount 0 and commission 0
  never returns a result; whenever the path chosen for the pair succeeds (the providers have
  answered with usable rates), the error is the generic \<open>ConversionFailed\<close>, raised by the
  division \<open>result / (amount * (1 + commission/100))\<close>. With a fresh entry for the pair the
  same call returns 0 and the entry's timestamp.
\<close>

theorem C10_zero_amount:
  assumes "code_of base = Some base_code" and "code_of quote = Some quote_code"
  shows
    "(fst (get_cached_rate w s base_code quote_code) = None \<longrightarrow>
        (\<exists>e. fst (get_price w s base quote 0 0) = Inl e) \<and>
        (\<forall>r. fst (uncached w (snd (get_cached_rate w s base_code quote_code))
                    base_code quote_code 0 0) = Inr r \<longrightarrow>
             fst (get_price w s base quote 0 0) = Inl (ConversionFailed ZeroDivisionError))) \<and>
     (\<forall>rate ts.
        fst (get_cached_rate w s base_code quote_code) = Some (rate, ts) \<longrightarrow>
        fst (get_price w s base quote 0 0) = Inr (0, ts))"
proof -
  obtain hit s1 where g: "get_cached_rate w s base_code quote_code = (hit, s1)"
    by (cases "get_cached_rate w s base_code quote_code")
  obtain r s2 where u: "uncached w s1 base_code quote_code 0 0 = (r, s2)"
    by (cases "uncached w s1 base_code quote_code 0 0")
  from assms show ?thesis
    by (cases hit; cases r) (auto simp: get_price_resolve resolve_def g u)
qed

theorem C10_zero_amount_witness:
  "fst (get_price example_world empty_state Dollar Rubl 0 0) =
     Inl (ConversionFailed ZeroDivisionError) \<and>
   fst (get_price example_world warm_state Dollar Rubl 0 0) = Inr (0, 1700000000)"
proof -
  have usd: "code_of Dollar = Some (ascii ''usd'')" and rub: "code_of Rubl = Some (ascii ''rub'')"
    by (simp_all add: code_of_examples)
  have miss: "fst (get_cached_rate example_world empty_state (ascii ''usd'') (ascii ''rub'')) = None"
    by (simp add: get_cached_rate_def example_defs)
  have answered:
    "fst (uncached example_world
           (snd (get_cached_rate example_world empty_state (ascii ''usd'') (ascii ''rub'')))
           (ascii ''usd'') (ascii ''rub'') 0 0) = Inr (0, 1700000000)"
    by (simp add: engine_defs example_defs str_defs)
  have hit: "fst (get_cached_rate example_world warm_state (ascii ''usd'') (ascii ''rub'')) =
      Some (90, 1700000000)"
    by (simp add: engine_defs example_defs str_defs)
  from C10_zero_amount [OF usd rub, where w = example_world and s = empty_state] miss answered
  have "fst (get_price example_world empty_state Dollar Rubl 0 0) =
      Inl (ConversionFailed ZeroDivisionError)"
    by blast
  moreover from C10_zero_amount [OF usd rub, where w = example_world and s = warm_state] hit
  have "fst (get_price example_world warm_state Dollar Rubl 0 0) = Inr (0, 1700000000)"
    by blast
  ultimately show ?thesis by blast
qed

end
